theory Spec2Isabelle
  imports Complex_Main
begin

section \<open>Python and library primitives used by the four search functions\<close>

text \<open>
  The notebook \<^verbatim>\<open>feature_selection_lennart_wallentin.ipynb\<close> defines four functions:
  \<^verbatim>\<open>interpretable_feature_selection\<close>, \<^verbatim>\<open>interpretable_precise_feature_selection\<close>,
  \<^verbatim>\<open>automated_feature_selection\<close> and \<^verbatim>\<open>automated_precise_feature_selection\<close>.
  Floats are modelled as reals (no rounding error, no NaN), Python ints as \<open>int\<close>.
  An exception is a value \<open>Inl e\<close> of the result type \<open>error + 'a\<close>.
\<close>

datatype error =
  InvalidImportanceType   \<comment> \<open>raised by the importance provider for an unknown kind\<close>
  | ValueError            \<comment> \<open>\<^verbatim>\<open>range()\<close> with a zero step\<close>
  | EmptyImportance       \<comment> \<open>\<^verbatim>\<open>np.quantile\<close> of an empty score column; see \<open>np_quantile\<close>\<close>
  | TrainerError          \<comment> \<open>any failure of cross-validation, fitting or scoring\<close>

subsection \<open>\<^verbatim>\<open>range(start, stop, step)\<close>\<close>

function range_down :: "int \<Rightarrow> int \<Rightarrow> int \<Rightarrow> int list" where
  "range_down i stop d = (if 0 < d \<and> stop < i then i # range_down (i - d) stop d else [])"
  by pat_completeness auto
termination
  by (relation "measure (\<lambda>(i, stop, d). nat (i - stop))") auto

function range_up :: "int \<Rightarrow> int \<Rightarrow> int \<Rightarrow> int list" where
  "range_up i stop d = (if 0 < d \<and> i < stop then i # range_up (i + d) stop d else [])"
  by pat_completeness auto
termination
  by (relation "measure (\<lambda>(i, stop, d). nat (stop - i))") auto

declare range_down.simps [simp del]
declare range_up.simps [simp del]

definition py_range :: "int \<Rightarrow> int \<Rightarrow> int \<Rightarrow> error + int list" where
  "py_range start stop step =
     (if step = 0 then Inl ValueError
      else if step < 0 then Inr (range_down start stop (- step))
      else Inr (range_up start stop step))"

subsection \<open>Slicing, column selection, rounding\<close>

text \<open>\<^verbatim>\<open>s.iloc[:n]\<close>: the first \<open>n\<close> entries; a negative \<open>n\<close> drops the last \<open>-n\<close>.\<close>

definition iloc_upto :: "'a list \<Rightarrow> int \<Rightarrow> 'a list" where
  "iloc_upto xs n = (if n < 0 then take (nat (int (length xs) + n)) xs else take (nat n) xs)"

text \<open>
  A data frame is the list of its named columns. \<^verbatim>\<open>df.loc[:, df.columns.isin(keep)]\<close>
  builds a new frame from the columns whose name is in \<open>keep\<close>, in the frame's order.
\<close>

type_synonym ('f, 'c) table = "('f \<times> 'c) list"

definition columns :: "('f, 'c) table \<Rightarrow> 'f list" where
  "columns df = map fst df"

definition loc_isin :: "('f, 'c) table \<Rightarrow> 'f list \<Rightarrow> ('f, 'c) table" where
  "loc_isin df keep = filter (\<lambda>col. fst col \<in> set keep) df"

text \<open>\<^verbatim>\<open>round(auc, 4)\<close> on a numpy float: scale, round half to even, scale back.\<close>

definition rint :: "real \<Rightarrow> int" where
  "rint x =
     (let f = \<lfloor>x\<rfloor>; d = x - of_int f
      in if d < 1 / 2 then f else if 1 / 2 < d then f + 1 else if even f then f else f + 1)"

definition py_round :: "real \<Rightarrow> nat \<Rightarrow> real" where
  "py_round x ndigits = of_int (rint (x * 10 ^ ndigits)) / 10 ^ ndigits"

subsection \<open>The importance ranking\<close>

text \<open>The kinds of importance the docstrings list.\<close>

definition importance_types :: "string list" where
  "importance_types = [''gain'', ''weight'', ''cover'', ''total_gain'', ''total_cover'']"

text \<open>
  Modelled from the spec: the Importance Provider
  \<^verbatim>\<open>clf.get_booster().get_score(importance_type=...)\<close> belongs to xgboost and is not
  part of the notebook. Following sections 4.1 and 6 of the specification it returns
  the mapping from feature to score of a recognized kind and fails with
  \<open>InvalidImportanceType\<close> for any other kind. A classifier is the function from kind to
  that mapping (a dict in insertion order).
\<close>

definition get_score :: "(string \<Rightarrow> ('f \<times> real) list) \<Rightarrow> string \<Rightarrow> error + ('f \<times> real) list" where
  "get_score clf importance_type =
     (if importance_type \<in> set importance_types then Inr (clf importance_type)
      else Inl InvalidImportanceType)"

text \<open>
  \<^verbatim>\<open>pd.DataFrame.from_dict(...).score.sort_values(ascending=False)\<close>: the features in
  descending order of score. Equal scores keep their dict order (pandas leaves the
  order of ties to the sorting algorithm).
\<close>

definition sort_values_desc :: "('f \<times> real) list \<Rightarrow> ('f \<times> real) list" where
  "sort_values_desc imp = sort_key (\<lambda>p. - snd p) imp"

text \<open>
  \<^verbatim>\<open>np.quantile(a, q)\<close> with linear interpolation: on the ascending values, at the
  position \<open>(n - 1) * q\<close>. What numpy does on an empty array depends on its version
  (NaN or an IndexError); the model has no value there.
\<close>

definition np_quantile :: "real list \<Rightarrow> real \<Rightarrow> real option" where
  "np_quantile a q =
     (if a = [] then None
      else let s = sort a; n = length s; h = real (n - 1) * q; j = nat \<lfloor>h\<rfloor>;
               g = h - real j; lo = s ! j; hi = s ! min (j + 1) (n - 1)
           in Some (lo + (hi - lo) * g))"

text \<open>\<^verbatim>\<open>sum(feature_importance_df <= v)\<close>: how many scores are at most \<open>v\<close>.\<close>

definition count_le :: "real list \<Rightarrow> real \<Rightarrow> int" where
  "count_le a v = int (length (filter (\<lambda>x. x \<le> v) a))"

text \<open>
  The loop header of the two broad searches:
  \<^verbatim>\<open>range(sum(df <= np.quantile(df, 0.75)), sum(df <= np.quantile(df, 0.25)) - 1, -abs(steps))\<close>.
\<close>

definition quartile_range :: "real list \<Rightarrow> int \<Rightarrow> error + int list" where
  "quartile_range scores steps =
     (case np_quantile scores (75 / 100) of
        None \<Rightarrow> Inl EmptyImportance
      | Some q75 \<Rightarrow>
          (case np_quantile scores (25 / 100) of
             None \<Rightarrow> Inl EmptyImportance
           | Some q25 \<Rightarrow> py_range (count_le scores q75) (count_le scores q25 - 1) (- \<bar>steps\<bar>)))"

text \<open>
  The loop header of the two precise searches:
  \<^verbatim>\<open>range(start_num_features + span, (start_num_features - span) - 1, -1)\<close>
  (the parameter \<^verbatim>\<open>span\<close> is written \<open>span'\<close>).
\<close>

definition span_range :: "int \<Rightarrow> int \<Rightarrow> error + int list" where
  "span_range start_num_features span' =
     py_range (start_num_features + span') ((start_num_features - span') - 1) (- 1)"

section \<open>The search loops\<close>

text \<open>
  The local variables of a search function. \<open>xtrain\<close> and \<open>xtest\<close> are rebound inside
  the loop, \<open>org_xtrain\<close> and \<open>org_xtest\<close> keep the frames the caller passed.
  \<open>calls\<close> records every call of the trainer: the loop variable and the two frames the
  model was trained and scored on.
\<close>

record ('f, 'c) frame =
  xtrain :: "('f, 'c) table"
  xtest :: "('f, 'c) table"
  org_xtrain :: "('f, 'c) table"
  org_xtest :: "('f, 'c) table"
  calls :: "(int \<times> ('f, 'c) table \<times> ('f, 'c) table) list"

record ('f, 'c) interpretable_locals = "('f, 'c) frame" +
  auc_num_features :: "(real \<times> int) list"

record ('f, 'c) automated_locals = "('f, 'c) frame" +
  low_num_features :: "int option"

datatype warn_text =
  Cant_keep_75_to_25 real           \<comment> \<open>interpretable broad search; carries \<open>auc_limit\<close>\<close>
  | Cant_find_as_few_interpretable  \<comment> \<open>interpretable precise search\<close>
  | Keeping_all_features            \<comment> \<open>automated broad search\<close>
  | Cant_find_as_few_automated      \<comment> \<open>automated precise search\<close>

datatype warning = UserWarning warn_text

text \<open>
  What a call leaves behind: the value of the \<^verbatim>\<open>return\<close> statement (for the automated
  functions a Python value that is \<^verbatim>\<open>None\<close> or an int), the warnings issued with
  \<^verbatim>\<open>warnings.warn\<close> (under Python's default filter a warning is printed, not raised),
  and the local variables at the end.
\<close>

record ('r, 's) outcome =
  returned :: 'r
  warned :: "warning list"
  locals :: 's

text \<open>
  The trainer (cross-validation, fit, ROC AUC) is xgboost and scikit-learn code; it is a
  parameter \<open>evaluate xtrain ytrain xtest ytest\<close> that returns the AUC or fails.
\<close>

type_synonym ('f, 'c, 'y) trainer =
  "('f, 'c) table \<Rightarrow> 'y \<Rightarrow> ('f, 'c) table \<Rightarrow> 'y \<Rightarrow> error + real"

fun for_loop :: "(int \<Rightarrow> 's \<Rightarrow> error + 's) \<Rightarrow> int list \<Rightarrow> 's \<Rightarrow> error + 's" where
  "for_loop body [] st = Inr st"
| "for_loop body (n # ns) st =
     (case body n st of Inl e \<Rightarrow> Inl e | Inr st' \<Rightarrow> for_loop body ns st')"

text \<open>The first three statements of every loop body: select the columns to keep.\<close>

definition narrow ::
  "('f \<times> real) list \<Rightarrow> int \<Rightarrow> ('f, 'c, 'z) frame_scheme \<Rightarrow> ('f, 'c, 'z) frame_scheme" where
  "narrow feature_importance_df num_features st =
     (let features_keep = iloc_upto feature_importance_df num_features;
          st1 = st\<lparr>xtrain := loc_isin (xtrain st) (map fst features_keep)\<rparr>
      in st1\<lparr>xtest := loc_isin (xtest st1) (map fst features_keep)\<rparr>)"

text \<open>The last two statements of every loop body.\<close>

definition restore :: "('f, 'c, 'z) frame_scheme \<Rightarrow> ('f, 'c, 'z) frame_scheme" where
  "restore st = (let st1 = st\<lparr>xtrain := org_xtrain st\<rparr> in st1\<lparr>xtest := org_xtest st1\<rparr>)"

definition train_and_score ::
  "('f, 'c, 'y) trainer \<Rightarrow> 'y \<Rightarrow> 'y \<Rightarrow> int \<Rightarrow> ('f, 'c, 'z) frame_scheme
     \<Rightarrow> error + (real \<times> ('f, 'c, 'z) frame_scheme)" where
  "train_and_score evaluate ytrain ytest num_features st =
     (case evaluate (xtrain st) ytrain (xtest st) ytest of
        Inl e \<Rightarrow> Inl e
      | Inr auc \<Rightarrow> Inr (auc, st\<lparr>calls := calls st @ [(num_features, xtrain st, xtest st)]\<rparr>))"

definition interpretable_body ::
  "('f, 'c, 'y) trainer \<Rightarrow> 'y \<Rightarrow> 'y \<Rightarrow> ('f \<times> real) list \<Rightarrow> real \<Rightarrow> real \<Rightarrow> int
     \<Rightarrow> ('f, 'c) interpretable_locals \<Rightarrow> error + ('f, 'c) interpretable_locals" where
  "interpretable_body evaluate ytrain ytest feature_importance_df auc_limit z_score num_features st =
     (case train_and_score evaluate ytrain ytest num_features
             (narrow feature_importance_df num_features st) of
        Inl e \<Rightarrow> Inl e
      | Inr (auc, st1) \<Rightarrow>
          Inr (restore
            (if auc \<ge> auc_limit * z_score
             then st1\<lparr>auc_num_features := auc_num_features st1 @ [(py_round auc 4, num_features)]\<rparr>
             else st1)))"

definition automated_body ::
  "('f, 'c, 'y) trainer \<Rightarrow> 'y \<Rightarrow> 'y \<Rightarrow> ('f \<times> real) list \<Rightarrow> real \<Rightarrow> real \<Rightarrow> int
     \<Rightarrow> ('f, 'c) automated_locals \<Rightarrow> error + ('f, 'c) automated_locals" where
  "automated_body evaluate ytrain ytest feature_importance_df auc_limit z_score num_features st =
     (case train_and_score evaluate ytrain ytest num_features
             (narrow feature_importance_df num_features st) of
        Inl e \<Rightarrow> Inl e
      | Inr (auc, st1) \<Rightarrow>
          Inr (restore
            (if auc \<ge> auc_limit * z_score
             then st1\<lparr>low_num_features := Some num_features\<rparr>
             else st1)))"

text \<open>\<^verbatim>\<open>not x\<close> for \<open>x\<close> that is \<^verbatim>\<open>None\<close> or an int: true for \<^verbatim>\<open>None\<close> and for \<open>0\<close>.\<close>

definition py_not :: "int option \<Rightarrow> bool" where
  "py_not x = (case x of None \<Rightarrow> True | Some n \<Rightarrow> n = 0)"

text \<open>
  The statements after the loop of \<^verbatim>\<open>automated_feature_selection\<close>:
  \<^verbatim>\<open>if not low_num_features: warnings.warn(...); low_num_features = len(org_xtrain.columns)\<close>
  and \<^verbatim>\<open>return low_num_features\<close>.
\<close>

definition keep_all_if_not ::
  "('f, 'c) automated_locals \<Rightarrow> (int option, ('f, 'c) automated_locals) outcome" where
  "keep_all_if_not st' =
     (if py_not (low_num_features st')
      then
        let st'' = st'\<lparr>low_num_features := Some (int (length (columns (org_xtrain st'))))\<rparr>
        in \<lparr>returned = low_num_features st'',
            warned = [UserWarning Keeping_all_features],
            locals = st''\<rparr>
      else \<lparr>returned = low_num_features st', warned = [], locals = st'\<rparr>)"

text \<open>
  The statements after the loop of \<^verbatim>\<open>automated_precise_feature_selection\<close>:
  \<^verbatim>\<open>if not lowest_num_features: warnings.warn(...); lowest_num_features = start_num_features\<close>
  and \<^verbatim>\<open>return lowest_num_features\<close> (the variable is \<open>low_num_features\<close> here too).
\<close>

definition keep_start_if_not ::
  "int \<Rightarrow> ('f, 'c) automated_locals \<Rightarrow> (int option, ('f, 'c) automated_locals) outcome" where
  "keep_start_if_not start_num_features st' =
     (if py_not (low_num_features st')
      then
        let st'' = st'\<lparr>low_num_features := Some start_num_features\<rparr>
        in \<lparr>returned = low_num_features st'',
            warned = [UserWarning Cant_find_as_few_automated],
            locals = st''\<rparr>
      else \<lparr>returned = low_num_features st', warned = [], locals = st'\<rparr>)"

section \<open>The four search functions\<close>

definition interpretable_feature_selection ::
  "('f, 'c, 'y) trainer \<Rightarrow> (string \<Rightarrow> ('f \<times> real) list) \<Rightarrow> real \<Rightarrow> string \<Rightarrow> real \<Rightarrow> int
     \<Rightarrow> ('f, 'c) table \<Rightarrow> ('f, 'c) table \<Rightarrow> 'y \<Rightarrow> 'y
     \<Rightarrow> error + ((real \<times> int) list, ('f, 'c) interpretable_locals) outcome" where
  "interpretable_feature_selection evaluate clf auc_limit importance_type ci steps
       X_train X_test y_train y_test =
     (case get_score clf importance_type of
        Inl e \<Rightarrow> Inl e
      | Inr feature_importance \<Rightarrow>
          let feature_importance_df = sort_values_desc feature_importance;
              z_score = ci - ((1 - ci) / 2);
              st = \<lparr>xtrain = X_train, xtest = X_test, org_xtrain = X_train,
                    org_xtest = X_test, calls = [], auc_num_features = []\<rparr>
          in (case quartile_range (map snd feature_importance_df) steps of
                Inl e \<Rightarrow> Inl e
              | Inr candidates \<Rightarrow>
                  (case for_loop (interpretable_body evaluate y_train y_test
                                    feature_importance_df auc_limit z_score) candidates st of
                     Inl e \<Rightarrow> Inl e
                   | Inr st' \<Rightarrow>
                       Inr \<lparr>returned = auc_num_features st',
                            warned = (if auc_num_features st' = []
                                      then [UserWarning (Cant_keep_75_to_25 auc_limit)] else []),
                            locals = st'\<rparr>)))"

definition interpretable_precise_feature_selection ::
  "('f, 'c, 'y) trainer \<Rightarrow> (string \<Rightarrow> ('f \<times> real) list) \<Rightarrow> int \<Rightarrow> real \<Rightarrow> string \<Rightarrow> real \<Rightarrow> int
     \<Rightarrow> ('f, 'c) table \<Rightarrow> ('f, 'c) table \<Rightarrow> 'y \<Rightarrow> 'y
     \<Rightarrow> error + ((real \<times> int) list, ('f, 'c) interpretable_locals) outcome" where
  "interpretable_precise_feature_selection evaluate clf start_num_features auc_limit
       importance_type ci span' X_train X_test y_train y_test =
     (case get_score clf importance_type of
        Inl e \<Rightarrow> Inl e
      | Inr feature_importance \<Rightarrow>
          let feature_importance_df = sort_values_desc feature_importance;
              z_score = ci - ((1 - ci) / 2);
              st = \<lparr>xtrain = X_train, xtest = X_test, org_xtrain = X_train,
                    org_xtest = X_test, calls = [], auc_num_features = []\<rparr>
          in (case span_range start_num_features span' of
                Inl e \<Rightarrow> Inl e
              | Inr candidates \<Rightarrow>
                  (case for_loop (interpretable_body evaluate y_train y_test
                                    feature_importance_df auc_limit z_score) candidates st of
                     Inl e \<Rightarrow> Inl e
                   | Inr st' \<Rightarrow>
                       Inr \<lparr>returned = auc_num_features st',
                            warned = (if auc_num_features st' = []
                                      then [UserWarning Cant_find_as_few_interpretable] else []),
                            locals = st'\<rparr>)))"

definition automated_feature_selection ::
  "('f, 'c, 'y) trainer \<Rightarrow> (string \<Rightarrow> ('f \<times> real) list) \<Rightarrow> real \<Rightarrow> string \<Rightarrow> real \<Rightarrow> int
     \<Rightarrow> ('f, 'c) table \<Rightarrow> ('f, 'c) table \<Rightarrow> 'y \<Rightarrow> 'y
     \<Rightarrow> error + (int option, ('f, 'c) automated_locals) outcome" where
  "automated_feature_selection evaluate clf auc_limit importance_type ci steps
       X_train X_test y_train y_test =
     (case get_score clf importance_type of
        Inl e \<Rightarrow> Inl e
      | Inr feature_importance \<Rightarrow>
          let feature_importance_df = sort_values_desc feature_importance;
              z_score = ci - ((1 - ci) / 2);
              st = \<lparr>xtrain = X_train, xtest = X_test, org_xtrain = X_train,
                    org_xtest = X_test, calls = [], low_num_features = None\<rparr>
          in (case quartile_range (map snd feature_importance_df) steps of
                Inl e \<Rightarrow> Inl e
              | Inr candidates \<Rightarrow>
                  (case for_loop (automated_body evaluate y_train y_test
                                    feature_importance_df auc_limit z_score) candidates st of
                     Inl e \<Rightarrow> Inl e
                   | Inr st' \<Rightarrow>
                       Inr (keep_all_if_not st'))))"

definition automated_precise_feature_selection ::
  "('f, 'c, 'y) trainer \<Rightarrow> (string \<Rightarrow> ('f \<times> real) list) \<Rightarrow> int \<Rightarrow> real \<Rightarrow> string \<Rightarrow> real \<Rightarrow> int
     \<Rightarrow> ('f, 'c) table \<Rightarrow> ('f, 'c) table \<Rightarrow> 'y \<Rightarrow> 'y
     \<Rightarrow> error + (int option, ('f, 'c) automated_locals) outcome" where
  "automated_precise_feature_selection evaluate clf start_num_features auc_limit
       importance_type ci span' X_train X_test y_train y_test =
     (case get_score clf importance_type of
        Inl e \<Rightarrow> Inl e
      | Inr feature_importance \<Rightarrow>
          let feature_importance_df = sort_values_desc feature_importance;
              z_score = ci - ((1 - ci) / 2);
              st = \<lparr>xtrain = X_train, xtest = X_test, org_xtrain = X_train,
                    org_xtest = X_test, calls = [], low_num_features = None\<rparr>
          in (case span_range start_num_features span' of
                Inl e \<Rightarrow> Inl e
              | Inr candidates \<Rightarrow>
                  (case for_loop (automated_body evaluate y_train y_test
                                    feature_importance_df auc_limit z_score) candidates st of
                     Inl e \<Rightarrow> Inl e
                   | Inr st' \<Rightarrow>
                       Inr (keep_start_if_not start_num_features st'))))"

section \<open>Notions used to state the properties\<close>

text \<open>The columns of a frame that are among the first \<open>n\<close> ranked features (\<^verbatim>\<open>iloc[:n]\<close>).\<close>

definition keep_columns :: "('f \<times> real) list \<Rightarrow> ('f, 'c) table \<Rightarrow> int \<Rightarrow> ('f, 'c) table" where
  "keep_columns feature_importance_df df n =
     loc_isin df (map fst (iloc_upto feature_importance_df n))"

text \<open>The trainer call of candidate \<open>n\<close> when both frames are the caller's full frames.\<close>

definition call_of ::
  "('f \<times> real) list \<Rightarrow> ('f, 'c) table \<Rightarrow> ('f, 'c) table \<Rightarrow> int
     \<Rightarrow> int \<times> ('f, 'c) table \<times> ('f, 'c) table" where
  "call_of feature_importance_df X_train X_test n =
     (n, keep_columns feature_importance_df X_train n, keep_columns feature_importance_df X_test n)"

text \<open>The candidates of \<open>cs\<close> whose score \<open>f n\<close> reaches the threshold \<open>thr\<close>, in scan order.\<close>

definition passing :: "(int \<Rightarrow> real) \<Rightarrow> real \<Rightarrow> int list \<Rightarrow> int list" where
  "passing f thr cs = filter (\<lambda>n. thr \<le> f n) cs"

text \<open>The value of the result variable after an automated scan: the last passing candidate.\<close>

definition last_passing :: "(int \<Rightarrow> real) \<Rightarrow> real \<Rightarrow> int list \<Rightarrow> int option" where
  "last_passing f thr cs =
     (case passing f thr cs of [] \<Rightarrow> None | p # ps \<Rightarrow> Some (last (p # ps)))"

text \<open>The ranked features of a classifier for a recognized kind of importance.\<close>

definition ranked :: "(string \<Rightarrow> ('f \<times> real) list) \<Rightarrow> string \<Rightarrow> ('f \<times> real) list" where
  "ranked clf importance_type = sort_values_desc (clf importance_type)"

text \<open>
  Observers of a call: what it returned together with its warnings, the candidate counts
  it trained on, and the frames bound to \<open>xtrain\<close> and \<open>xtest\<close> when it returned.
  A call that raised has none of them.
\<close>

definition returns :: "error + ('r, 's) outcome \<Rightarrow> 'r \<Rightarrow> warning list \<Rightarrow> bool" where
  "returns res v ws =
     (case res of Inl e \<Rightarrow> False | Inr out \<Rightarrow> returned out = v \<and> warned out = ws)"

definition trained_on ::
  "error + ('r, ('f, 'c, 'z) frame_scheme) outcome
     \<Rightarrow> (int \<times> ('f, 'c) table \<times> ('f, 'c) table) list option" where
  "trained_on res = (case res of Inl e \<Rightarrow> None | Inr out \<Rightarrow> Some (calls (locals out)))"

definition scanned :: "error + ('r, ('f, 'c, 'z) frame_scheme) outcome \<Rightarrow> int list option" where
  "scanned res = (case res of Inl e \<Rightarrow> None | Inr out \<Rightarrow> Some (map fst (calls (locals out))))"

definition frames_at_return ::
  "error + ('r, ('f, 'c, 'z) frame_scheme) outcome \<Rightarrow> (('f, 'c) table \<times> ('f, 'c) table) option" where
  "frames_at_return res =
     (case res of Inl e \<Rightarrow> None | Inr out \<Rightarrow> Some (xtrain (locals out), xtest (locals out)))"

section \<open>Example inputs\<close>

text \<open>
  A classifier with four features (numbered 0 to 3) whose scores are the same for every
  kind, and a frame with these four columns. Two trainers: one returns the same AUC
  for every training frame, the other an AUC that grows with the number of training
  columns; both fail on a training frame with no columns, as xgboost does.
\<close>

definition example_clf :: "string \<Rightarrow> (nat \<times> real) list" where
  "example_clf importance_type = [(0, 2), (1, 4), (2, 1), (3, 3)]"

definition example_X :: "(nat, unit) table" where
  "example_X = [(0, ()), (1, ()), (2, ()), (3, ())]"

definition constant_trainer :: "real \<Rightarrow> (nat, unit, unit) trainer" where
  "constant_trainer auc xtrain' ytrain xtest' ytest =
     (if xtrain' = [] then Inl TrainerError else Inr auc)"

definition counting_trainer :: "(nat, unit, unit) trainer" where
  "counting_trainer xtrain' ytrain xtest' ytest =
     (if xtrain' = [] then Inl TrainerError else Inr (real (length xtrain') / 10))"

text \<open>
  A classifier with 70 features: feature \<open>i\<close> has score \<open>70 - i\<close>, but feature 17 has
  score 52 like feature 18. A frame with these 70 columns.
\<close>

definition example_clf70 :: "string \<Rightarrow> (nat \<times> real) list" where
  "example_clf70 importance_type =
     map (\<lambda>i. (i, if i = 17 then 52 else 70 - real i)) [0 ..< 70]"

definition example_X70 :: "(nat, unit) table" where
  "example_X70 = map (\<lambda>i. (i, ())) [0 ..< 70]"

section \<open>Ranges\<close>

lemma py_range_zero_step: "py_range a b 0 = Inl ValueError"
  by (simp add: py_range_def)

lemma range_down_bounds: "n \<in> set (range_down i stop d) \<Longrightarrow> stop < n \<and> n \<le> i"
proof (induction i stop d rule: range_down.induct)
  case (1 i stop d)
  show ?case
  proof (cases "0 < d \<and> stop < i")
    case True
    with "1.prems" have "n = i \<or> n \<in> set (range_down (i - d) stop d)"
      by (simp add: range_down.simps [of i stop d])
    then show ?thesis
    proof
      assume "n = i"
      with True show ?thesis by simp
    next
      assume "n \<in> set (range_down (i - d) stop d)"
      with "1.IH" [OF True] True show ?thesis by simp
    qed
  next
    case False
    with "1.prems" show ?thesis
      by (simp add: range_down.simps [of i stop d])
  qed
qed

lemma range_down_descending: "sorted_wrt (\<lambda>a b. b < a) (range_down i stop d)"
proof (induction i stop d rule: range_down.induct)
  case (1 i stop d)
  show ?case
  proof (cases "0 < d \<and> stop < i")
    case True
    have "\<forall>n\<in>set (range_down (i - d) stop d). n < i"
      using range_down_bounds [of _ "i - d" stop d] True by fastforce
    with "1.IH" [OF True] True show ?thesis
      by (simp add: range_down.simps [of i stop d])
  next
    case False
    then have "range_down i stop d = []"
      by (subst range_down.simps) auto
    then show ?thesis by simp
  qed
qed

lemma range_down_progression:
  "0 < d \<Longrightarrow> range_down i stop d = map (\<lambda>k. i - int k * d) [0 ..< nat ((i - stop + d - 1) div d)]"
proof (induction i stop d rule: range_down.induct)
  case (1 i stop d)
  show ?case
  proof (cases "stop < i")
    case True
    have cnt: "nat ((i - stop + d - 1) div d) = Suc (nat ((i - d - stop + d - 1) div d))"
    proof -
      have e: "i - stop + d - 1 = d + (i - d - stop + d - 1)" by simp
      have "(i - stop + d - 1) div d = (d + (i - d - stop + d - 1)) div d"
        by (rule arg_cong [OF e])
      also have "\<dots> = (i - d - stop + d - 1) div d + 1"
        using "1.prems" by (simp only: div_add_self1)
      finally have "(i - stop + d - 1) div d = (i - d - stop + d - 1) div d + 1" .
      moreover have "0 \<le> (i - d - stop + d - 1) div d"
        using True "1.prems" by (simp add: pos_imp_zdiv_nonneg_iff)
      ultimately show ?thesis by simp
    qed
    have "range_down i stop d = i # range_down (i - d) stop d"
      using True "1.prems" by (simp add: range_down.simps [of i stop d])
    also have "range_down (i - d) stop d =
        map (\<lambda>k. i - d - int k * d) [0 ..< nat ((i - d - stop + d - 1) div d)]"
      using "1.IH" True "1.prems" by simp
    finally show ?thesis
      unfolding cnt
      by (simp add: upt_conv_Cons map_Suc_upt [symmetric] algebra_simps del: upt_Suc)
  next
    case False
    then have "i - stop + d - 1 \<le> d - 1" by simp
    then have "(i - stop + d - 1) div d \<le> (d - 1) div d"
      using "1.prems" by (rule zdiv_mono1)
    moreover have "(d - 1) div d = 0"
      using "1.prems" by simp
    ultimately have "(i - stop + d - 1) div d \<le> 0" by simp
    with False show ?thesis
      by (simp add: range_down.simps [of i stop d])
  qed
qed

lemma range_down_unit: "range_down i stop 1 = rev [stop + 1 .. i]"
proof (induction i stop "1 :: int" rule: range_down.induct)
  case (1 i stop)
  show ?case
  proof (cases "stop < i")
    case True
    with "1.hyps" have "range_down (i - 1) stop 1 = rev [stop + 1 .. i - 1]" by simp
    moreover have "[stop + 1 .. i] = [stop + 1 .. i - 1] @ [i]"
      using True by (simp add: upto_rec2)
    ultimately show ?thesis
      using True by (simp add: range_down.simps [of i stop 1])
  next
    case False
    then show ?thesis by (simp add: range_down.simps [of i stop 1])
  qed
qed

lemma span_range_eq:
  "span_range start_num_features span' = Inr (rev [start_num_features - span' .. start_num_features + span'])"
  by (simp add: span_range_def py_range_def range_down_unit)

section \<open>The loops, iteration by iteration\<close>

lemma interpretable_body_step:
  assumes ev: "evaluate (keep_columns R (org_xtrain st) n) ytr (keep_columns R (org_xtest st) n) yte = Inr s"
      and inv: "xtrain st = org_xtrain st" "xtest st = org_xtest st"
  shows "interpretable_body evaluate ytr yte R L z n st =
     Inr (st\<lparr>calls := calls st @ [call_of R (org_xtrain st) (org_xtest st) n],
            auc_num_features := auc_num_features st @ (if s \<ge> L * z then [(py_round s 4, n)] else [])\<rparr>)"
  using ev inv
  by (simp add: interpretable_body_def train_and_score_def narrow_def restore_def keep_columns_def call_of_def Let_def)

lemma automated_body_step:
  assumes ev: "evaluate (keep_columns R (org_xtrain st) n) ytr (keep_columns R (org_xtest st) n) yte = Inr s"
      and inv: "xtrain st = org_xtrain st" "xtest st = org_xtest st"
  shows "automated_body evaluate ytr yte R L z n st =
     Inr (st\<lparr>calls := calls st @ [call_of R (org_xtrain st) (org_xtest st) n],
            low_num_features := (if s \<ge> L * z then Some n else low_num_features st)\<rparr>)"
  using ev inv
  by (simp add: automated_body_def train_and_score_def narrow_def restore_def keep_columns_def call_of_def Let_def)

lemma for_loop_interpretable:
  assumes "\<forall>n\<in>set cs. evaluate (keep_columns R (org_xtrain st) n) ytr (keep_columns R (org_xtest st) n) yte = Inr (f n)"
      and "xtrain st = org_xtrain st" "xtest st = org_xtest st"
  shows "for_loop (interpretable_body evaluate ytr yte R L z) cs st =
     Inr (st\<lparr>calls := calls st @ map (call_of R (org_xtrain st) (org_xtest st)) cs,
            auc_num_features := auc_num_features st @ map (\<lambda>n. (py_round (f n) 4, n)) (filter (\<lambda>n. f n \<ge> L * z) cs)\<rparr>)"
  using assms
proof (induction cs arbitrary: st)
  case Nil
  then show ?case by simp
next
  case (Cons n cs)
  have ev: "evaluate (keep_columns R (org_xtrain st) n) ytr (keep_columns R (org_xtest st) n) yte = Inr (f n)"
    using Cons.prems(1) by simp
  note step = interpretable_body_step [where evaluate = evaluate and R = R and st = st and n = n
      and ytr = ytr and yte = yte and s = "f n" and L = L and z = z, OF ev Cons.prems(2) Cons.prems(3)]
  define st1 where "st1 = st\<lparr>calls := calls st @ [call_of R (org_xtrain st) (org_xtest st) n],
            auc_num_features := auc_num_features st @ (if f n \<ge> L * z then [(py_round (f n) 4, n)] else [])\<rparr>"
  have org: "org_xtrain st1 = org_xtrain st" "org_xtest st1 = org_xtest st"
    and inv1: "xtrain st1 = org_xtrain st1" "xtest st1 = org_xtest st1"
    using Cons.prems(2,3) by (simp_all add: st1_def)
  have "\<forall>m\<in>set cs. evaluate (keep_columns R (org_xtrain st1) m) ytr (keep_columns R (org_xtest st1) m) yte = Inr (f m)"
    using Cons.prems(1) org by simp
  from Cons.IH [OF this inv1]
  show ?case
    using step by (simp add: st1_def)
qed

lemma for_loop_automated:
  assumes "\<forall>n\<in>set cs. evaluate (keep_columns R (org_xtrain st) n) ytr (keep_columns R (org_xtest st) n) yte = Inr (f n)"
      and "xtrain st = org_xtrain st" "xtest st = org_xtest st"
  shows "for_loop (automated_body evaluate ytr yte R L z) cs st =
     Inr (st\<lparr>calls := calls st @ map (call_of R (org_xtrain st) (org_xtest st)) cs,
            low_num_features := (case filter (\<lambda>n. f n \<ge> L * z) cs of [] \<Rightarrow> low_num_features st | p # ps \<Rightarrow> Some (last (p # ps)))\<rparr>)"
  using assms
proof (induction cs arbitrary: st)
  case Nil
  then show ?case by simp
next
  case (Cons n cs)
  have ev: "evaluate (keep_columns R (org_xtrain st) n) ytr (keep_columns R (org_xtest st) n) yte = Inr (f n)"
    using Cons.prems(1) by simp
  note step = automated_body_step [where evaluate = evaluate and R = R and st = st and n = n
      and ytr = ytr and yte = yte and s = "f n" and L = L and z = z, OF ev Cons.prems(2) Cons.prems(3)]
  define st1 where "st1 = st\<lparr>calls := calls st @ [call_of R (org_xtrain st) (org_xtest st) n],
            low_num_features := (if f n \<ge> L * z then Some n else low_num_features st)\<rparr>"
  have org: "org_xtrain st1 = org_xtrain st" "org_xtest st1 = org_xtest st"
    and inv1: "xtrain st1 = org_xtrain st1" "xtest st1 = org_xtest st1"
    using Cons.prems(2,3) by (simp_all add: st1_def)
  have "\<forall>m\<in>set cs. evaluate (keep_columns R (org_xtrain st1) m) ytr (keep_columns R (org_xtest st1) m) yte = Inr (f m)"
    using Cons.prems(1) org by simp
  from Cons.IH [OF this inv1]
  show ?case
    using step by (simp add: st1_def split: list.splits)
qed

lemma for_loop_automated_from_None:
  assumes "\<forall>n\<in>set cs. evaluate (keep_columns R (org_xtrain st) n) ytr (keep_columns R (org_xtest st) n) yte = Inr (f n)"
      and "xtrain st = org_xtrain st" "xtest st = org_xtest st" "low_num_features st = None"
  shows "for_loop (automated_body evaluate ytr yte R L z) cs st =
     Inr (st\<lparr>calls := calls st @ map (call_of R (org_xtrain st) (org_xtest st)) cs,
            low_num_features := last_passing f (L * z) cs\<rparr>)"
  using for_loop_automated [where evaluate = evaluate and f = f, OF assms(1) assms(2) assms(3), of L z] assms(4)
  by (cases "filter (\<lambda>n. L * z \<le> f n) cs") (simp_all add: last_passing_def passing_def)

section \<open>The last passing candidate\<close>

lemma descending_last_Min:
  "sorted_wrt (\<lambda>a b. b < a) xs \<Longrightarrow> xs \<noteq> [] \<Longrightarrow> last xs = Min (set (xs :: int list))"
proof (induction xs)
  case Nil
  then show ?case by simp
next
  case (Cons x xs)
  show ?case
  proof (cases "xs = []")
    case True
    then show ?thesis by simp
  next
    case False
    with Cons have IH: "last xs = Min (set xs)" by simp
    have "Min (set xs) \<in> set xs"
      using False by (intro Min_in) simp_all
    then have lt: "Min (set xs) < x"
      using Cons.prems(1) by auto
    have "Min (insert x (set xs)) = min x (Min (set xs))"
      using False by (intro Min_insert) simp_all
    also have "\<dots> = Min (set xs)"
      using lt by (rule_tac min_absorb2) (rule less_imp_le)
    finally have "Min (set (x # xs)) = Min (set xs)" by simp
    moreover have "last (x # xs) = last xs"
      using False by simp
    ultimately show ?thesis
      using IH by (simp only:)
  qed
qed

lemma passing_descending:
  "sorted_wrt (\<lambda>a b. b < a) cs \<Longrightarrow> sorted_wrt (\<lambda>a b. b < a) (passing f thr cs)"
  by (simp add: passing_def sorted_wrt_filter)

lemma last_passing_smallest:
  assumes "sorted_wrt (\<lambda>a b. b < a) cs" and "passing f thr cs \<noteq> []"
  shows "last_passing f thr cs = Some (Min {n \<in> set cs. thr \<le> f n})"
proof -
  have "last (passing f thr cs) = Min (set (passing f thr cs))"
    using assms by (simp add: descending_last_Min passing_descending)
  moreover have "set (passing f thr cs) = {n \<in> set cs. thr \<le> f n}"
    by (simp add: passing_def)
  moreover have "last_passing f thr cs = Some (last (passing f thr cs))"
    using assms(2) by (cases "passing f thr cs") (simp_all add: last_passing_def)
  ultimately show ?thesis by (simp only:)
qed

lemma last_passing_None: "(last_passing f thr cs = None) = (passing f thr cs = [])"
  by (simp add: last_passing_def split: list.splits)


section \<open>The quartile bounds\<close>

lemma np_quantile_ge_some:
  assumes "np_quantile a q = Some v" and "0 \<le> q" and "q \<le> 1"
  shows "\<exists>x\<in>set a. x \<le> v"
proof -
  from assms(1) have ne: "a \<noteq> []"
    by (auto simp add: np_quantile_def split: if_splits)
  define s where "s = sort a"
  define n where "n = length s"
  define h where "h = real (n - 1) * q"
  define j where "j = nat \<lfloor>h\<rfloor>"
  have npos: "0 < n" using ne by (simp add: n_def s_def)
  have h0: "0 \<le> h" using assms(2) by (simp add: h_def)
  have h1: "h \<le> real (n - 1)"
    using assms(2,3) by (simp add: h_def mult_left_le)
  have jle: "j \<le> n - 1"
  proof -
    have "\<lfloor>h\<rfloor> \<le> int (n - 1)" using h1 by (simp add: floor_le_iff)
    then show ?thesis by (simp add: j_def)
  qed
  have jh: "real j \<le> h"
    using h0 by (simp add: j_def)
  have v: "v = s ! j + (s ! min (j + 1) (n - 1) - s ! j) * (h - real j)"
    using assms(1) ne by (simp add: np_quantile_def Let_def s_def n_def h_def j_def)
  have "s ! j \<le> s ! min (j + 1) (n - 1)"
  proof (rule sorted_nth_mono)
    show "sorted s" by (simp add: s_def)
    show "j \<le> min (j + 1) (n - 1)" using jle by simp
    have "min (j + 1) (n - 1) \<le> n - 1" by simp
    also have "n - 1 < n" using npos by simp
    finally show "min (j + 1) (n - 1) < length s" by (simp only: n_def)
  qed
  then have "0 \<le> (s ! min (j + 1) (n - 1) - s ! j) * (h - real j)"
    using jh by simp
  then have "s ! j \<le> v" by (simp add: v)
  moreover have "s ! j \<in> set a"
  proof -
    have "j < length s" using jle npos unfolding n_def by arith
    then have "s ! j \<in> set s" by (rule nth_mem)
    then show ?thesis by (simp add: s_def)
  qed
  ultimately show ?thesis by blast
qed

lemma count_le_positive:
  assumes "np_quantile a q = Some v" and "0 \<le> q" and "q \<le> 1"
  shows "1 \<le> count_le a v"
proof -
  from np_quantile_ge_some [OF assms] obtain x where "x \<in> set a" "x \<le> v" by blast
  then have "filter (\<lambda>x. x \<le> v) a \<noteq> []"
    by (auto simp add: filter_empty_conv)
  then have "0 < length (filter (\<lambda>x. x \<le> v) a)" by simp
  then have "1 \<le> int (length (filter (\<lambda>x. x \<le> v) a))" by linarith
  then show ?thesis by (simp only: count_le_def)
qed

lemma count_le_length: "count_le a v \<le> int (length a)"
  by (simp add: count_le_def)

lemma quartile_range_eq:
  assumes "np_quantile scores (75 / 100) = Some q75" and "np_quantile scores (25 / 100) = Some q25"
      and "steps \<noteq> 0"
  shows "quartile_range scores steps =
           Inr (range_down (count_le scores q75) (count_le scores q25 - 1) \<bar>steps\<bar>)"
  using assms by (simp add: quartile_range_def py_range_def)

lemma quartile_range_bounds:
  assumes "quartile_range scores steps = Inr cs" and "n \<in> set cs"
  shows "1 \<le> n \<and> n \<le> int (length scores)"
proof -
  from assms(1) obtain q75 q25 where q: "np_quantile scores (75 / 100) = Some q75"
      "np_quantile scores (25 / 100) = Some q25"
    and r: "py_range (count_le scores q75) (count_le scores q25 - 1) (- \<bar>steps\<bar>) = Inr cs"
    by (auto simp add: quartile_range_def split: option.splits)
  from r have "cs = range_down (count_le scores q75) (count_le scores q25 - 1) \<bar>steps\<bar>"
    by (auto simp add: py_range_def split: if_splits)
  with assms(2) have "count_le scores q25 - 1 < n" "n \<le> count_le scores q75"
    using range_down_bounds by blast+
  moreover have "1 \<le> count_le scores q25"
    using q(2) by (rule count_le_positive) simp_all
  moreover note count_le_length [of scores q75]
  ultimately show ?thesis by simp
qed

section \<open>What a whole call computes\<close>

lemma interpretable_feature_selection_run:
  assumes kind: "importance_type \<in> set importance_types"
      and cs: "quartile_range (map snd (ranked clf importance_type)) steps = Inr cs"
      and ev: "\<forall>n\<in>set cs. evaluate (keep_columns (ranked clf importance_type) X_train n) y_train
                    (keep_columns (ranked clf importance_type) X_test n) y_test = Inr (f n)"
  shows "interpretable_feature_selection evaluate clf auc_limit importance_type ci steps
           X_train X_test y_train y_test =
         Inr \<lparr>returned = map (\<lambda>n. (py_round (f n) 4, n)) (passing f (auc_limit * (ci - (1 - ci) / 2)) cs),
              warned = (if passing f (auc_limit * (ci - (1 - ci) / 2)) cs = []
                        then [UserWarning (Cant_keep_75_to_25 auc_limit)] else []),
              locals = \<lparr>xtrain = X_train, xtest = X_test, org_xtrain = X_train, org_xtest = X_test,
                         calls = map (call_of (ranked clf importance_type) X_train X_test) cs,
                         auc_num_features = map (\<lambda>n. (py_round (f n) 4, n))
                                              (passing f (auc_limit * (ci - (1 - ci) / 2)) cs)\<rparr>\<rparr>"
proof -
  define st where "st = \<lparr>xtrain = X_train, xtest = X_test, org_xtrain = X_train,
                    org_xtest = X_test, calls = [], auc_num_features = []\<rparr>"
  have ev': "\<forall>n\<in>set cs. evaluate (keep_columns (ranked clf importance_type) (org_xtrain st) n) y_train
                    (keep_columns (ranked clf importance_type) (org_xtest st) n) y_test = Inr (f n)"
    using ev by (simp add: st_def)
  have inv: "xtrain st = org_xtrain st" "xtest st = org_xtest st"
    by (simp_all add: st_def)
  note loop = for_loop_interpretable [where evaluate = evaluate and f = f, OF ev' inv,
      of auc_limit "ci - (1 - ci) / 2"]
  show ?thesis
    using kind cs loop
    by (simp add: interpretable_feature_selection_def get_score_def ranked_def [symmetric]
        st_def [symmetric] passing_def [symmetric])
      (simp add: st_def)
qed

lemma interpretable_precise_feature_selection_run:
  assumes kind: "importance_type \<in> set importance_types"
      and cs: "span_range start_num_features span' = Inr cs"
      and ev: "\<forall>n\<in>set cs. evaluate (keep_columns (ranked clf importance_type) X_train n) y_train
                    (keep_columns (ranked clf importance_type) X_test n) y_test = Inr (f n)"
  shows "interpretable_precise_feature_selection evaluate clf start_num_features auc_limit
           importance_type ci span' X_train X_test y_train y_test =
         Inr \<lparr>returned = map (\<lambda>n. (py_round (f n) 4, n)) (passing f (auc_limit * (ci - (1 - ci) / 2)) cs),
              warned = (if passing f (auc_limit * (ci - (1 - ci) / 2)) cs = []
                        then [UserWarning Cant_find_as_few_interpretable] else []),
              locals = \<lparr>xtrain = X_train, xtest = X_test, org_xtrain = X_train, org_xtest = X_test,
                         calls = map (call_of (ranked clf importance_type) X_train X_test) cs,
                         auc_num_features = map (\<lambda>n. (py_round (f n) 4, n))
                                              (passing f (auc_limit * (ci - (1 - ci) / 2)) cs)\<rparr>\<rparr>"
proof -
  define st where "st = \<lparr>xtrain = X_train, xtest = X_test, org_xtrain = X_train,
                    org_xtest = X_test, calls = [], auc_num_features = []\<rparr>"
  have ev': "\<forall>n\<in>set cs. evaluate (keep_columns (ranked clf importance_type) (org_xtrain st) n) y_train
                    (keep_columns (ranked clf importance_type) (org_xtest st) n) y_test = Inr (f n)"
    using ev by (simp add: st_def)
  have inv: "xtrain st = org_xtrain st" "xtest st = org_xtest st"
    by (simp_all add: st_def)
  note loop = for_loop_interpretable [where evaluate = evaluate and f = f, OF ev' inv,
      of auc_limit "ci - (1 - ci) / 2"]
  show ?thesis
    using kind cs loop
    by (simp add: interpretable_precise_feature_selection_def get_score_def ranked_def [symmetric]
        st_def [symmetric] passing_def [symmetric])
      (simp add: st_def)
qed

lemma automated_feature_selection_run:
  assumes kind: "importance_type \<in> set importance_types"
      and cs: "quartile_range (map snd (ranked clf importance_type)) steps = Inr cs"
      and ev: "\<forall>n\<in>set cs. evaluate (keep_columns (ranked clf importance_type) X_train n) y_train
                    (keep_columns (ranked clf importance_type) X_test n) y_test = Inr (f n)"
  shows "automated_feature_selection evaluate clf auc_limit importance_type ci steps
           X_train X_test y_train y_test =
         Inr (keep_all_if_not
                \<lparr>xtrain = X_train, xtest = X_test, org_xtrain = X_train, org_xtest = X_test,
                  calls = map (call_of (ranked clf importance_type) X_train X_test) cs,
                  low_num_features = last_passing f (auc_limit * (ci - (1 - ci) / 2)) cs\<rparr>)"
proof -
  define st where "st = \<lparr>xtrain = X_train, xtest = X_test, org_xtrain = X_train,
                    org_xtest = X_test, calls = [], low_num_features = None\<rparr>"
  have ev': "\<forall>n\<in>set cs. evaluate (keep_columns (ranked clf importance_type) (org_xtrain st) n) y_train
                    (keep_columns (ranked clf importance_type) (org_xtest st) n) y_test = Inr (f n)"
    using ev by (simp add: st_def)
  have inv: "xtrain st = org_xtrain st" "xtest st = org_xtest st" "low_num_features st = None"
    by (simp_all add: st_def)
  note loop = for_loop_automated_from_None [where evaluate = evaluate and f = f, OF ev' inv,
      of auc_limit "ci - (1 - ci) / 2"]
  show ?thesis
    using kind cs loop
    by (simp add: automated_feature_selection_def get_score_def ranked_def [symmetric]
        st_def [symmetric])
      (simp add: st_def)
qed

lemma automated_precise_feature_selection_run:
  assumes kind: "importance_type \<in> set importance_types"
      and cs: "span_range start_num_features span' = Inr cs"
      and ev: "\<forall>n\<in>set cs. evaluate (keep_columns (ranked clf importance_type) X_train n) y_train
                    (keep_columns (ranked clf importance_type) X_test n) y_test = Inr (f n)"
  shows "automated_precise_feature_selection evaluate clf start_num_features auc_limit
           importance_type ci span' X_train X_test y_train y_test =
         Inr (keep_start_if_not start_num_features
                \<lparr>xtrain = X_train, xtest = X_test, org_xtrain = X_train, org_xtest = X_test,
                  calls = map (call_of (ranked clf importance_type) X_train X_test) cs,
                  low_num_features = last_passing f (auc_limit * (ci - (1 - ci) / 2)) cs\<rparr>)"
proof -
  define st where "st = \<lparr>xtrain = X_train, xtest = X_test, org_xtrain = X_train,
                    org_xtest = X_test, calls = [], low_num_features = None\<rparr>"
  have ev': "\<forall>n\<in>set cs. evaluate (keep_columns (ranked clf importance_type) (org_xtrain st) n) y_train
                    (keep_columns (ranked clf importance_type) (org_xtest st) n) y_test = Inr (f n)"
    using ev by (simp add: st_def)
  have inv: "xtrain st = org_xtrain st" "xtest st = org_xtest st" "low_num_features st = None"
    by (simp_all add: st_def)
  note loop = for_loop_automated_from_None [where evaluate = evaluate and f = f, OF ev' inv,
      of auc_limit "ci - (1 - ci) / 2"]
  show ?thesis
    using kind cs loop
    by (simp add: automated_precise_feature_selection_def get_score_def ranked_def [symmetric]
        st_def [symmetric])
      (simp add: st_def)
qed

section \<open>The statements after the loops\<close>

lemma keep_all_if_not_None:
  "low_num_features st = None \<Longrightarrow>
   keep_all_if_not st =
     \<lparr>returned = Some (int (length (columns (org_xtrain st)))),
      warned = [UserWarning Keeping_all_features],
      locals = st\<lparr>low_num_features := Some (int (length (columns (org_xtrain st))))\<rparr>\<rparr>"
  by (simp add: keep_all_if_not_def py_not_def Let_def)

lemma keep_start_if_not_None:
  "low_num_features st = None \<Longrightarrow>
   keep_start_if_not start_num_features st =
     \<lparr>returned = Some start_num_features,
      warned = [UserWarning Cant_find_as_few_automated],
      locals = st\<lparr>low_num_features := Some start_num_features\<rparr>\<rparr>"
  by (simp add: keep_start_if_not_def py_not_def Let_def)

lemma passing_none: "\<forall>n\<in>set cs. f n < thr \<Longrightarrow> passing f thr cs = []"
  by (simp add: passing_def filter_empty_conv not_le)


section \<open>The example inputs, evaluated\<close>

lemma example_ranked: "ranked example_clf kind = [(1, 4), (3, 3), (0, 2), (2, 1)]"
  by (simp add: ranked_def sort_values_desc_def example_clf_def)

lemma example_keep_columns:
  "keep_columns (ranked example_clf kind) example_X 5 = example_X"
  "keep_columns (ranked example_clf kind) example_X 4 = example_X"
  "keep_columns (ranked example_clf kind) example_X 3 = [(0, ()), (1, ()), (3, ())]"
  "keep_columns (ranked example_clf kind) example_X 2 = [(1, ()), (3, ())]"
  "keep_columns (ranked example_clf kind) example_X 1 = [(1, ())]"
  "keep_columns (ranked example_clf kind) example_X 0 = []"
  by (simp_all add: keep_columns_def example_ranked iloc_upto_def loc_isin_def example_X_def)

lemma example_lengths:
  "length (ranked example_clf kind) = 4" "length (columns example_X) = 4"
  by (simp_all add: example_ranked columns_def example_X_def)

lemma example_X_nonempty: "example_X \<noteq> []"
  by (simp add: example_X_def)

lemma example_quartile_range_1: "quartile_range (map snd (ranked example_clf kind)) 1 = Inr [3, 2, 1]"
  by (simp add: example_ranked quartile_range_def np_quantile_def count_le_def py_range_def
      range_down.simps)

lemma example_span_range_2_1: "span_range 2 1 = Inr [3, 2, 1]"
  by (simp add: span_range_def py_range_def range_down.simps)

lemma gain_recognized: "''gain'' \<in> set importance_types"
  by (simp add: importance_types_def)


section \<open>Nothing accepted\<close>

text \<open>
  Claim C5. If no scanned candidate's score reaches the threshold (and the trainer returns
  a score for every candidate), the automated broad search returns the number of columns
  of the training frame with the warning \<open>Keeping_all_features\<close>, the automated precise
  search returns \<open>start_num_features\<close> with its warning, and both exploratory searches
  return the empty list with their warning; each call returns (\<open>Inr\<close>), none raises,
  and all four warnings are of the one class \<open>UserWarning\<close>.
\<close>

theorem no_acceptance_falls_back:
  assumes kind: "importance_type \<in> set importance_types"
  shows "(quartile_range (map snd (ranked clf importance_type)) steps = Inr cs \<and>
          (\<forall>n\<in>set cs. evaluate (keep_columns (ranked clf importance_type) X_train n) y_train
                          (keep_columns (ranked clf importance_type) X_test n) y_test = Inr (f n) \<and>
                        f n < auc_limit * (ci - (1 - ci) / 2)) \<longrightarrow>
          returns (automated_feature_selection evaluate clf auc_limit importance_type ci steps
                     X_train X_test y_train y_test)
            (Some (int (length (columns X_train)))) [UserWarning Keeping_all_features] \<and>
          returns (interpretable_feature_selection evaluate clf auc_limit importance_type ci steps
                     X_train X_test y_train y_test)
            [] [UserWarning (Cant_keep_75_to_25 auc_limit)]) \<and>
         (span_range start_num_features span' = Inr ps \<and>
          (\<forall>n\<in>set ps. evaluate (keep_columns (ranked clf importance_type) X_train n) y_train
                          (keep_columns (ranked clf importance_type) X_test n) y_test = Inr (g n) \<and>
                        g n < auc_limit * (ci - (1 - ci) / 2)) \<longrightarrow>
          returns (automated_precise_feature_selection evaluate clf start_num_features auc_limit
                     importance_type ci span' X_train X_test y_train y_test)
            (Some start_num_features) [UserWarning Cant_find_as_few_automated] \<and>
          returns (interpretable_precise_feature_selection evaluate clf start_num_features auc_limit
                     importance_type ci span' X_train X_test y_train y_test)
            [] [UserWarning Cant_find_as_few_interpretable])"
proof (intro conjI impI)
  assume a: "quartile_range (map snd (ranked clf importance_type)) steps = Inr cs \<and>
          (\<forall>n\<in>set cs. evaluate (keep_columns (ranked clf importance_type) X_train n) y_train
                          (keep_columns (ranked clf importance_type) X_test n) y_test = Inr (f n) \<and>
                        f n < auc_limit * (ci - (1 - ci) / 2))"
  then have cs: "quartile_range (map snd (ranked clf importance_type)) steps = Inr cs"
    and ev: "\<forall>n\<in>set cs. evaluate (keep_columns (ranked clf importance_type) X_train n) y_train
                (keep_columns (ranked clf importance_type) X_test n) y_test = Inr (f n)"
    and low: "\<forall>n\<in>set cs. f n < auc_limit * (ci - (1 - ci) / 2)"
    by simp_all
  have none: "passing f (auc_limit * (ci - (1 - ci) / 2)) cs = []"
    using low by (rule passing_none)
  then have lp: "last_passing f (auc_limit * (ci - (1 - ci) / 2)) cs = None"
    by (simp add: last_passing_None)
  show "returns (automated_feature_selection evaluate clf auc_limit importance_type ci steps
                     X_train X_test y_train y_test)
            (Some (int (length (columns X_train)))) [UserWarning Keeping_all_features]"
    by (simp add: automated_feature_selection_run [where evaluate = evaluate and f = f, OF kind cs ev] lp
        keep_all_if_not_None returns_def)
  show "returns (interpretable_feature_selection evaluate clf auc_limit importance_type ci steps
                     X_train X_test y_train y_test)
            [] [UserWarning (Cant_keep_75_to_25 auc_limit)]"
    by (simp add: interpretable_feature_selection_run [where evaluate = evaluate and f = f, OF kind cs ev] none returns_def)
next
  assume a: "span_range start_num_features span' = Inr ps \<and>
          (\<forall>n\<in>set ps. evaluate (keep_columns (ranked clf importance_type) X_train n) y_train
                          (keep_columns (ranked clf importance_type) X_test n) y_test = Inr (g n) \<and>
                        g n < auc_limit * (ci - (1 - ci) / 2))"
  then have ps: "span_range start_num_features span' = Inr ps"
    and ev: "\<forall>n\<in>set ps. evaluate (keep_columns (ranked clf importance_type) X_train n) y_train
                (keep_columns (ranked clf importance_type) X_test n) y_test = Inr (g n)"
    and low: "\<forall>n\<in>set ps. g n < auc_limit * (ci - (1 - ci) / 2)"
    by simp_all
  have none: "passing g (auc_limit * (ci - (1 - ci) / 2)) ps = []"
    using low by (rule passing_none)
  then have lp: "last_passing g (auc_limit * (ci - (1 - ci) / 2)) ps = None"
    by (simp add: last_passing_None)
  show "returns (automated_precise_feature_selection evaluate clf start_num_features auc_limit
                     importance_type ci span' X_train X_test y_train y_test)
            (Some start_num_features) [UserWarning Cant_find_as_few_automated]"
    by (simp add: automated_precise_feature_selection_run [where evaluate = evaluate and f = g, OF kind ps ev] lp
        keep_start_if_not_None returns_def)
  show "returns (interpretable_precise_feature_selection evaluate clf start_num_features auc_limit
                     importance_type ci span' X_train X_test y_train y_test)
            [] [UserWarning Cant_find_as_few_interpretable]"
    by (simp add: interpretable_precise_feature_selection_run [where evaluate = evaluate and f = g, OF kind ps ev] none
        returns_def)
qed

theorem no_acceptance_falls_back_witness:
  "returns (automated_feature_selection (constant_trainer (1 / 10)) example_clf (9 / 10) ''gain'' 1 1
              example_X example_X () ())
     (Some 4) [UserWarning Keeping_all_features] \<and>
   returns (interpretable_feature_selection (constant_trainer (1 / 10)) example_clf (9 / 10) ''gain'' 1 1
              example_X example_X () ())
     [] [UserWarning (Cant_keep_75_to_25 (9 / 10))] \<and>
   returns (automated_precise_feature_selection (constant_trainer (1 / 10)) example_clf 2 (9 / 10)
              ''gain'' 1 1 example_X example_X () ())
     (Some 2) [UserWarning Cant_find_as_few_automated] \<and>
   returns (interpretable_precise_feature_selection (constant_trainer (1 / 10)) example_clf 2 (9 / 10)
              ''gain'' 1 1 example_X example_X () ())
     [] [UserWarning Cant_find_as_few_interpretable]"
  using no_acceptance_falls_back [OF gain_recognized, where clf = example_clf and steps = 1
      and cs = "[3, 2, 1]" and evaluate = "constant_trainer (1 / 10)" and f = "\<lambda>n. 1 / 10"
      and g = "\<lambda>n. 1 / 10" and auc_limit = "9 / 10" and ci = 1 and start_num_features = 2
      and span' = 1 and ps = "[3, 2, 1]" and X_train = example_X and X_test = example_X
      and y_train = "()" and y_test = "()"]
  by (simp add: example_quartile_range_1 example_span_range_2_1 constant_trainer_def
      example_keep_columns example_X_nonempty example_lengths)

section \<open>The range of the precise searches\<close>

lemma span_range_progression:
  "span_range start_num_features span' =
     Inr (map (\<lambda>k. start_num_features + span' - int k) [0 ..< nat (2 * span' + 1)])"
proof -
  have "range_down (start_num_features + span') (start_num_features - span' - 1) 1 =
      map (\<lambda>k. start_num_features + span' - int k * 1)
        [0 ..< nat ((start_num_features + span' - (start_num_features - span' - 1) + 1 - 1) div 1)]"
    by (rule range_down_progression) simp
  moreover have "start_num_features + span' - (start_num_features - span' - 1) + 1 - 1 = 2 * span' + 1"
    by simp
  ultimately show ?thesis
    by (simp add: span_range_def py_range_def add.commute)
qed

lemma last_passing_Some: "last_passing f thr cs = Some n \<Longrightarrow> n \<in> set cs \<and> thr \<le> f n"
proof -
  assume a: "last_passing f thr cs = Some n"
  then have ne: "passing f thr cs \<noteq> []"
    by (auto simp add: last_passing_def split: list.splits)
  with a have "n = last (passing f thr cs)"
    by (cases "passing f thr cs") (simp_all add: last_passing_def)
  with ne have "n \<in> set (passing f thr cs)"
    by simp
  then show ?thesis by (simp add: passing_def)
qed

lemma keep_start_if_not_returned:
  "returned (keep_start_if_not start_num_features st) =
     (if py_not (low_num_features st) then Some start_num_features else low_num_features st)"
  by (simp add: keep_start_if_not_def Let_def)

lemma keep_all_if_not_returned:
  "returned (keep_all_if_not st) =
     (if py_not (low_num_features st) then Some (int (length (columns (org_xtrain st))))
      else low_num_features st)"
  by (simp add: keep_all_if_not_def Let_def)

lemma keep_start_if_not_frame:
  "calls (locals (keep_start_if_not start_num_features st)) = calls st"
  "xtrain (locals (keep_start_if_not start_num_features st)) = xtrain st"
  "xtest (locals (keep_start_if_not start_num_features st)) = xtest st"
  by (simp_all add: keep_start_if_not_def Let_def)

lemma keep_all_if_not_frame:
  "calls (locals (keep_all_if_not st)) = calls st"
  "xtrain (locals (keep_all_if_not st)) = xtrain st"
  "xtest (locals (keep_all_if_not st)) = xtest st"
  by (simp_all add: keep_all_if_not_def Let_def)

lemma map_fst_call_of: "map (fst \<circ> call_of R X_train X_test) cs = cs"
  by (induction cs) (simp_all add: call_of_def)

text \<open>
  Claim C4. For a positive \<open>span'\<close> the two precise searches train on exactly the counts
  \<open>start_num_features + span'\<close>, \<open>start_num_features + span' - 1\<close>, ... down to
  \<open>start_num_features - span'\<close>: one step of 1 at a time, \<open>2 * span' + 1\<close> counts, every
  integer of the interval. Every count in the list the exploratory search returns lies
  in that interval, and so does the count the automated search returns (its fallback
  \<open>start_num_features\<close> included). The trainer is assumed to return a score \<open>f n\<close> for every
  scanned count \<open>n\<close>.
\<close>

theorem precise_search_range:
  assumes kind: "importance_type \<in> set importance_types"
      and pos: "0 < span'"
      and cs: "cs = map (\<lambda>k. start_num_features + span' - int k) [0 ..< nat (2 * span' + 1)]"
      and ev: "\<forall>n\<in>set cs. evaluate (keep_columns (ranked clf importance_type) X_train n) y_train
                    (keep_columns (ranked clf importance_type) X_test n) y_test = Inr (f n)"
  shows "scanned (interpretable_precise_feature_selection evaluate clf start_num_features auc_limit
                    importance_type ci span' X_train X_test y_train y_test) = Some cs \<and>
         scanned (automated_precise_feature_selection evaluate clf start_num_features auc_limit
                    importance_type ci span' X_train X_test y_train y_test) = Some cs \<and>
         set cs = {start_num_features - span' .. start_num_features + span'} \<and>
         (\<exists>pairs ws. returns (interpretable_precise_feature_selection evaluate clf start_num_features
                                auc_limit importance_type ci span' X_train X_test y_train y_test)
                       pairs ws \<and>
              (\<forall>p\<in>set pairs. start_num_features - span' \<le> snd p \<and>
                               snd p \<le> start_num_features + span')) \<and>
         (\<exists>count ws. returns (automated_precise_feature_selection evaluate clf start_num_features
                                auc_limit importance_type ci span' X_train X_test y_train y_test)
                       (Some count) ws \<and>
              start_num_features - span' \<le> count \<and> count \<le> start_num_features + span')"
proof -
  have rng: "span_range start_num_features span' = Inr cs"
    by (simp add: span_range_progression cs)
  have set_cs: "set cs = {start_num_features - span' .. start_num_features + span'}"
  proof -
    have "Inr cs = (Inr (rev [start_num_features - span' .. start_num_features + span'])
        :: error + int list)"
      using rng by (simp add: span_range_eq)
    then show ?thesis by simp
  qed
  note irun = interpretable_precise_feature_selection_run
    [where evaluate = evaluate and f = f and auc_limit = auc_limit and ci = ci, OF kind rng ev]
  note arun = automated_precise_feature_selection_run
    [where evaluate = evaluate and f = f and auc_limit = auc_limit and ci = ci, OF kind rng ev]
  have s1: "scanned (interpretable_precise_feature_selection evaluate clf start_num_features auc_limit
                    importance_type ci span' X_train X_test y_train y_test) = Some cs"
    by (simp add: irun scanned_def map_fst_call_of)
  have s2: "scanned (automated_precise_feature_selection evaluate clf start_num_features auc_limit
                    importance_type ci span' X_train X_test y_train y_test) = Some cs"
    by (simp add: arun scanned_def keep_start_if_not_frame map_fst_call_of)
  define thr where "thr = auc_limit * (ci - (1 - ci) / 2)"
  have i3: "\<exists>pairs ws. returns (interpretable_precise_feature_selection evaluate clf start_num_features
                                auc_limit importance_type ci span' X_train X_test y_train y_test)
                       pairs ws \<and>
              (\<forall>p\<in>set pairs. start_num_features - span' \<le> snd p \<and>
                               snd p \<le> start_num_features + span')"
  proof (intro exI conjI)
    show "returns (interpretable_precise_feature_selection evaluate clf start_num_features
                                auc_limit importance_type ci span' X_train X_test y_train y_test)
            (map (\<lambda>n. (py_round (f n) 4, n)) (passing f thr cs))
            (if passing f thr cs = [] then [UserWarning Cant_find_as_few_interpretable] else [])"
      by (simp add: irun returns_def thr_def)
    show "\<forall>p\<in>set (map (\<lambda>n. (py_round (f n) 4, n)) (passing f thr cs)).
            start_num_features - span' \<le> snd p \<and> snd p \<le> start_num_features + span'"
      using set_cs by (auto simp add: passing_def)
  qed
  have a3: "\<exists>count ws. returns (automated_precise_feature_selection evaluate clf start_num_features
                                auc_limit importance_type ci span' X_train X_test y_train y_test)
                       (Some count) ws \<and>
              start_num_features - span' \<le> count \<and> count \<le> start_num_features + span'"
  proof (cases "py_not (last_passing f thr cs)")
    case True
    then have "returns (automated_precise_feature_selection evaluate clf start_num_features
                                auc_limit importance_type ci span' X_train X_test y_train y_test)
            (Some start_num_features) [UserWarning Cant_find_as_few_automated]"
      by (simp add: arun returns_def thr_def keep_start_if_not_def Let_def)
    moreover have "start_num_features - span' \<le> start_num_features \<and>
        start_num_features \<le> start_num_features + span'"
      using pos by simp
    ultimately show ?thesis by blast
  next
    case False
    then obtain n where n: "last_passing f thr cs = Some n"
      by (cases "last_passing f thr cs") (simp_all add: py_not_def)
    then have "n \<in> set cs" by (simp add: last_passing_Some)
    then have "start_num_features - span' \<le> n \<and> n \<le> start_num_features + span'"
      using set_cs by simp
    moreover have "returns (automated_precise_feature_selection evaluate clf start_num_features
                                auc_limit importance_type ci span' X_train X_test y_train y_test)
            (Some n) []"
      using False n by (simp add: arun returns_def thr_def keep_start_if_not_def Let_def)
    ultimately show ?thesis by blast
  qed
  from s1 s2 set_cs i3 a3 show ?thesis by (intro conjI)
qed

theorem precise_search_range_witness:
  "scanned (interpretable_precise_feature_selection counting_trainer example_clf 2 (15 / 100)
              ''gain'' 1 1 example_X example_X () ()) = Some [3, 2, 1] \<and>
   scanned (automated_precise_feature_selection counting_trainer example_clf 2 (15 / 100)
              ''gain'' 1 1 example_X example_X () ()) = Some [3, 2, 1]"
proof -
  have pos: "(0 :: int) < 1" by simp
  have cs: "[3, 2, 1] = map (\<lambda>k. 2 + 1 - int k) [0 ..< nat (2 * 1 + 1)]"
    by (simp add: upt_rec)
  have ev: "\<forall>n\<in>set [3, 2, 1]. counting_trainer (keep_columns (ranked example_clf ''gain'') example_X n) ()
                    (keep_columns (ranked example_clf ''gain'') example_X n) () =
               Inr (real (length (keep_columns (ranked example_clf ''gain'') example_X n)) / 10)"
    by (simp add: counting_trainer_def example_keep_columns example_X_nonempty)
  from precise_search_range [where evaluate = counting_trainer and clf = example_clf
      and auc_limit = "15 / 100" and ci = 1 and X_train = example_X and X_test = example_X
      and y_train = "()" and y_test = "()"
      and f = "\<lambda>n. real (length (keep_columns (ranked example_clf ''gain'') example_X n)) / 10",
      OF gain_recognized pos cs ev]
  show ?thesis by simp
qed

section \<open>The range of the broad searches\<close>

lemma quartile_range_progression:
  assumes q75: "np_quantile scores (75 / 100) = Some q75"
      and q25: "np_quantile scores (25 / 100) = Some q25"
      and steps: "steps \<noteq> 0"
  shows "quartile_range scores steps =
           Inr (map (\<lambda>k. count_le scores q75 - int k * \<bar>steps\<bar>)
                  [0 ..< nat ((count_le scores q75 - count_le scores q25) div \<bar>steps\<bar> + 1)])"
proof -
  define hi where "hi = count_le scores q75"
  define lo where "lo = count_le scores q25"
  define d where "d = \<bar>steps\<bar>"
  have d: "0 < d" using steps by (simp add: d_def)
  have "range_down hi (lo - 1) d = map (\<lambda>k. hi - int k * d) [0 ..< nat ((hi - (lo - 1) + d - 1) div d)]"
    using d by (rule range_down_progression)
  moreover have "(hi - (lo - 1) + d - 1) div d = (hi - lo) div d + 1"
  proof -
    have e: "hi - (lo - 1) + d - 1 = d + (hi - lo)" by simp
    have "(hi - (lo - 1) + d - 1) div d = (d + (hi - lo)) div d"
      by (rule arg_cong [OF e])
    also have "\<dots> = (hi - lo) div d + 1"
      using d by (simp only: div_add_self1)
    finally show ?thesis .
  qed
  ultimately have "range_down hi (lo - 1) d = map (\<lambda>k. hi - int k * d) [0 ..< nat ((hi - lo) div d + 1)]"
    by (simp only:)
  then show ?thesis
    using quartile_range_eq [OF q75 q25 steps] by (simp only: hi_def lo_def d_def)
qed

lemma progression_stops_at_bound:
  assumes d: "0 < (d :: int)"
  shows "hi - int (nat ((hi - lo) div d + 1)) * d < lo"
proof (cases "0 \<le> (hi - lo) div d + 1")
  case True
  define q where "q = (hi - lo) div d"
  define r where "r = (hi - lo) mod d"
  have eq: "hi - lo = q * d + r" by (simp add: q_def r_def)
  have r: "r < d" using d by (simp add: r_def)
  have n: "int (nat (q + 1)) = q + 1" using True by (simp add: q_def)
  have "(q + 1) * d = q * d + d" by (simp add: distrib_right)
  with eq r have "hi - (q + 1) * d < lo" by linarith
  then show ?thesis by (simp only: n q_def [symmetric])
next
  case False
  then have neg: "(hi - lo) div d < 0" by simp
  then have "hi - lo < 0"
    using d by (simp add: pos_imp_zdiv_neg_iff)
  moreover have "nat ((hi - lo) div d + 1) = 0" using False by simp
  ultimately show ?thesis by simp
qed

text \<open>
  Claim C3. Let \<open>hi\<close> be the number of features whose importance is at most the 75th
  percentile of the importances and \<open>lo\<close> the number at most the 25th percentile
  (\<^verbatim>\<open>np.quantile\<close>, linear interpolation). For a non-empty importance table and a
  non-zero \<open>steps\<close>, both broad searches train on exactly the counts \<open>hi\<close>,
  \<open>hi - |steps|\<close>, \<open>hi - 2 * |steps|\<close>, ... that are at least \<open>lo\<close>: in strictly
  descending order, all within \<open>lo .. hi\<close>, and the next count of the progression would
  fall below \<open>lo\<close> (so \<open>lo\<close> itself is scanned when \<open>|steps|\<close> divides \<open>hi - lo\<close>). With
  \<open>hi = 53\<close>, \<open>lo = 18\<close> and steps 5 the counts are 53, 48, 43, 38, 33, 28, 23, 18.
  The trainer is assumed to return a score \<open>f n\<close> for every scanned count \<open>n\<close>.
\<close>

theorem broad_search_range:
  assumes kind: "importance_type \<in> set importance_types"
      and q75: "np_quantile (map snd (ranked clf importance_type)) (75 / 100) = Some q75"
      and q25: "np_quantile (map snd (ranked clf importance_type)) (25 / 100) = Some q25"
      and hi: "hi = count_le (map snd (ranked clf importance_type)) q75"
      and lo: "lo = count_le (map snd (ranked clf importance_type)) q25"
      and steps: "steps \<noteq> 0"
      and cs: "cs = map (\<lambda>k. hi - int k * \<bar>steps\<bar>) [0 ..< nat ((hi - lo) div \<bar>steps\<bar> + 1)]"
      and ev: "\<forall>n\<in>set cs. evaluate (keep_columns (ranked clf importance_type) X_train n) y_train
                    (keep_columns (ranked clf importance_type) X_test n) y_test = Inr (f n)"
  shows "scanned (interpretable_feature_selection evaluate clf auc_limit importance_type ci steps
                    X_train X_test y_train y_test) = Some cs \<and>
         scanned (automated_feature_selection evaluate clf auc_limit importance_type ci steps
                    X_train X_test y_train y_test) = Some cs \<and>
         sorted_wrt (\<lambda>a b. b < a) cs \<and>
         (\<forall>n\<in>set cs. lo \<le> n \<and> n \<le> hi) \<and>
         hi - int (length cs) * \<bar>steps\<bar> < lo \<and>
         (hi = 53 \<and> lo = 18 \<and> \<bar>steps\<bar> = 5 \<longrightarrow> cs = [53, 48, 43, 38, 33, 28, 23, 18])"
proof -
  have rng: "quartile_range (map snd (ranked clf importance_type)) steps = Inr cs"
    using quartile_range_progression [OF q75 q25 steps] by (simp only: hi lo cs)
  have rd: "cs = range_down hi (lo - 1) \<bar>steps\<bar>"
    using rng quartile_range_eq [OF q75 q25 steps] by (simp add: hi lo)
  note irun = interpretable_feature_selection_run
    [where evaluate = evaluate and f = f and auc_limit = auc_limit and ci = ci, OF kind rng ev]
  note arun = automated_feature_selection_run
    [where evaluate = evaluate and f = f and auc_limit = auc_limit and ci = ci, OF kind rng ev]
  have s1: "scanned (interpretable_feature_selection evaluate clf auc_limit importance_type ci steps
                    X_train X_test y_train y_test) = Some cs"
    by (simp add: irun scanned_def map_fst_call_of)
  have s2: "scanned (automated_feature_selection evaluate clf auc_limit importance_type ci steps
                    X_train X_test y_train y_test) = Some cs"
    by (simp add: arun scanned_def keep_all_if_not_frame map_fst_call_of)
  have desc: "sorted_wrt (\<lambda>a b. b < a) cs"
    by (simp only: rd range_down_descending)
  have bounds: "\<forall>n\<in>set cs. lo \<le> n \<and> n \<le> hi"
  proof
    fix n assume "n \<in> set cs"
    then have "n \<in> set (range_down hi (lo - 1) \<bar>steps\<bar>)" by (simp only: rd)
    then have "lo - 1 < n \<and> n \<le> hi" by (rule range_down_bounds)
    then show "lo \<le> n \<and> n \<le> hi" by simp
  qed
  have len: "length cs = nat ((hi - lo) div \<bar>steps\<bar> + 1)"
    by (simp add: cs)
  have stop: "hi - int (length cs) * \<bar>steps\<bar> < lo"
    unfolding len using steps by (intro progression_stops_at_bound) simp
  have ex: "hi = 53 \<and> lo = 18 \<and> \<bar>steps\<bar> = 5 \<longrightarrow> cs = [53, 48, 43, 38, 33, 28, 23, 18]"
  proof
    assume "hi = 53 \<and> lo = 18 \<and> \<bar>steps\<bar> = 5"
    then have "cs = range_down 53 (18 - 1) 5" using rd by simp
    then show "cs = [53, 48, 43, 38, 33, 28, 23, 18]"
      by (simp add: range_down.simps)
  qed
  from s1 s2 desc bounds stop ex show ?thesis by (intro conjI)
qed

lemmas upt_from_0 =
  upt_rec [of 0 "numeral n"] upt_rec [of "Suc 0" "numeral n"] numeral_2_eq_2 [symmetric] for n

lemma example_scores70:
  "map snd (ranked example_clf70 kind) =
     map (\<lambda>i. if i = 17 then 52 else 70 - real i) [0 ..< 70]"
  by (simp add: ranked_def sort_values_desc_def example_clf70_def upt_from_0)

lemma example_q75: "np_quantile (map snd (ranked example_clf70 kind)) (75 / 100) = Some 52"
  by (simp add: example_scores70 np_quantile_def upt_from_0)

lemma example_q25: "np_quantile (map snd (ranked example_clf70 kind)) (25 / 100) = Some (73 / 4)"
  by (simp add: example_scores70 np_quantile_def upt_from_0)

lemma example_hi: "count_le (map snd (ranked example_clf70 kind)) 52 = 53"
  by (simp add: example_scores70 count_le_def upt_from_0)

lemma example_lo: "count_le (map snd (ranked example_clf70 kind)) (73 / 4) = 18"
  by (simp add: example_scores70 count_le_def upt_from_0)

lemma keep_columns_nonempty:
  assumes "0 < n" and "R = p # R'" and "fst p \<in> set (columns df)"
  shows "keep_columns R df n \<noteq> []"
proof -
  have "0 < nat n" using assms(1) by simp
  then obtain k where k: "nat n = Suc k" by (cases "nat n") simp_all
  have "p \<in> set (iloc_upto R n)"
    using assms(1) by (simp add: iloc_upto_def assms(2) k)
  then have "fst p \<in> set (map fst (iloc_upto R n))" by simp
  moreover from assms(3) obtain col where "col \<in> set df" "fst col = fst p"
    by (auto simp add: columns_def)
  ultimately have "col \<in> set (keep_columns R df n)"
    by (simp add: keep_columns_def loc_isin_def)
  then show ?thesis by auto
qed

lemma example_nonempty70:
  assumes "0 < n"
  shows "keep_columns (ranked example_clf70 kind) example_X70 n \<noteq> []"
proof -
  have "\<exists>R'. ranked example_clf70 kind = (0, 70) # R'"
    by (simp add: ranked_def sort_values_desc_def example_clf70_def upt_from_0)
  then obtain R' where "ranked example_clf70 kind = (0, 70) # R'" ..
  moreover have "fst (0 :: nat, 70 :: real) \<in> set (columns example_X70)"
    by (simp add: columns_def example_X70_def upt_from_0)
  ultimately show ?thesis
    using assms by (intro keep_columns_nonempty)
qed

theorem broad_search_range_witness:
  "length (example_clf70 ''gain'') = 70 \<and>
   scanned (interpretable_feature_selection (constant_trainer (99 / 100)) example_clf70 (9 / 10)
              ''gain'' 1 5 example_X70 example_X70 () ()) = Some [53, 48, 43, 38, 33, 28, 23, 18] \<and>
   scanned (automated_feature_selection (constant_trainer (99 / 100)) example_clf70 (9 / 10)
              ''gain'' 1 5 example_X70 example_X70 () ()) = Some [53, 48, 43, 38, 33, 28, 23, 18]"
proof -
  have steps: "(5 :: int) \<noteq> 0" by simp
  have cs: "[53, 48, 43, 38, 33, 28, 23, 18] =
      map (\<lambda>k. 53 - int k * \<bar>5\<bar>) [0 ..< nat ((53 - 18) div \<bar>5\<bar> + 1)]"
    by code_simp
  have ev: "\<forall>n\<in>set [53, 48, 43, 38, 33, 28, 23, 18].
      constant_trainer (99 / 100) (keep_columns (ranked example_clf70 ''gain'') example_X70 n) ()
        (keep_columns (ranked example_clf70 ''gain'') example_X70 n) () = Inr (99 / 100)"
    by (simp add: constant_trainer_def example_nonempty70)
  have len: "length (example_clf70 ''gain'') = 70"
    by (simp add: example_clf70_def)
  from broad_search_range [where evaluate = "constant_trainer (99 / 100)" and clf = example_clf70
      and auc_limit = "9 / 10" and ci = 1 and X_train = example_X70 and X_test = example_X70
      and y_train = "()" and y_test = "()" and f = "\<lambda>n. 99 / 100",
      OF gain_recognized example_q75 example_q25 example_hi [symmetric] example_lo [symmetric]
        steps cs ev]
  show ?thesis using len by simp
qed

section \<open>Every iteration starts from the full frames\<close>

lemma interpretable_body_restores:
  "interpretable_body evaluate ytr yte R L z n st = Inr st' \<Longrightarrow>
   xtrain st' = org_xtrain st \<and> xtest st' = org_xtest st \<and>
   org_xtrain st' = org_xtrain st \<and> org_xtest st' = org_xtest st"
  by (auto simp add: interpretable_body_def train_and_score_def narrow_def restore_def Let_def
      split: sum.splits if_splits)

lemma automated_body_restores:
  "automated_body evaluate ytr yte R L z n st = Inr st' \<Longrightarrow>
   xtrain st' = org_xtrain st \<and> xtest st' = org_xtest st \<and>
   org_xtrain st' = org_xtrain st \<and> org_xtest st' = org_xtest st"
  by (auto simp add: automated_body_def train_and_score_def narrow_def restore_def Let_def
      split: sum.splits if_splits)

text \<open>
  Claim C9. In each of the four functions the trainer is called, for every candidate
  \<open>n\<close>, on the columns selected from the caller's full frames \<open>X_train\<close> and \<open>X_test\<close>
  (\<open>call_of\<close>), never on a frame narrowed by an earlier iteration; when the function
  returns, \<open>xtrain\<close> and \<open>xtest\<close> are bound to the caller's frames again. One iteration
  of either loop body, from any state, ends with \<open>xtrain\<close> and \<open>xtest\<close> rebound to
  \<open>org_xtrain\<close> and \<open>org_xtest\<close>, which it leaves as they were. Frames are values here:
  \<^verbatim>\<open>.loc\<close> builds a new frame and the source never assigns into one, so only the
  bindings of the variables can change. The trainer is assumed to return a score for
  every scanned count.
\<close>

theorem iterations_use_full_frames:
  assumes kind: "importance_type \<in> set importance_types"
  shows "(quartile_range (map snd (ranked clf importance_type)) steps = Inr cs \<and>
          (\<forall>n\<in>set cs. evaluate (keep_columns (ranked clf importance_type) X_train n) y_train
                          (keep_columns (ranked clf importance_type) X_test n) y_test = Inr (f n)) \<longrightarrow>
          trained_on (interpretable_feature_selection evaluate clf auc_limit importance_type ci steps
                        X_train X_test y_train y_test) =
            Some (map (call_of (ranked clf importance_type) X_train X_test) cs) \<and>
          frames_at_return (interpretable_feature_selection evaluate clf auc_limit importance_type
                              ci steps X_train X_test y_train y_test) = Some (X_train, X_test) \<and>
          trained_on (automated_feature_selection evaluate clf auc_limit importance_type ci steps
                        X_train X_test y_train y_test) =
            Some (map (call_of (ranked clf importance_type) X_train X_test) cs) \<and>
          frames_at_return (automated_feature_selection evaluate clf auc_limit importance_type
                              ci steps X_train X_test y_train y_test) = Some (X_train, X_test)) \<and>
         (span_range start_num_features span' = Inr ps \<and>
          (\<forall>n\<in>set ps. evaluate (keep_columns (ranked clf importance_type) X_train n) y_train
                          (keep_columns (ranked clf importance_type) X_test n) y_test = Inr (g n)) \<longrightarrow>
          trained_on (interpretable_precise_feature_selection evaluate clf start_num_features
                        auc_limit importance_type ci span' X_train X_test y_train y_test) =
            Some (map (call_of (ranked clf importance_type) X_train X_test) ps) \<and>
          frames_at_return (interpretable_precise_feature_selection evaluate clf start_num_features
                              auc_limit importance_type ci span' X_train X_test y_train y_test) =
            Some (X_train, X_test) \<and>
          trained_on (automated_precise_feature_selection evaluate clf start_num_features
                        auc_limit importance_type ci span' X_train X_test y_train y_test) =
            Some (map (call_of (ranked clf importance_type) X_train X_test) ps) \<and>
          frames_at_return (automated_precise_feature_selection evaluate clf start_num_features
                              auc_limit importance_type ci span' X_train X_test y_train y_test) =
            Some (X_train, X_test)) \<and>
         (interpretable_body evaluate y_train y_test (ranked clf importance_type) auc_limit z n sti
            = Inr sti' \<longrightarrow>
          xtrain sti' = org_xtrain sti \<and> xtest sti' = org_xtest sti \<and>
          org_xtrain sti' = org_xtrain sti \<and> org_xtest sti' = org_xtest sti) \<and>
         (automated_body evaluate y_train y_test (ranked clf importance_type) auc_limit z n sta
            = Inr sta' \<longrightarrow>
          xtrain sta' = org_xtrain sta \<and> xtest sta' = org_xtest sta \<and>
          org_xtrain sta' = org_xtrain sta \<and> org_xtest sta' = org_xtest sta)"
proof (intro conjI impI)
  assume a: "quartile_range (map snd (ranked clf importance_type)) steps = Inr cs \<and>
          (\<forall>n\<in>set cs. evaluate (keep_columns (ranked clf importance_type) X_train n) y_train
                          (keep_columns (ranked clf importance_type) X_test n) y_test = Inr (f n))"
  then have cs: "quartile_range (map snd (ranked clf importance_type)) steps = Inr cs"
    and ev: "\<forall>n\<in>set cs. evaluate (keep_columns (ranked clf importance_type) X_train n) y_train
                (keep_columns (ranked clf importance_type) X_test n) y_test = Inr (f n)"
    by simp_all
  note irun = interpretable_feature_selection_run
    [where evaluate = evaluate and f = f and auc_limit = auc_limit and ci = ci, OF kind cs ev]
  note arun = automated_feature_selection_run
    [where evaluate = evaluate and f = f and auc_limit = auc_limit and ci = ci, OF kind cs ev]
  show "trained_on (interpretable_feature_selection evaluate clf auc_limit importance_type ci steps
                        X_train X_test y_train y_test) =
            Some (map (call_of (ranked clf importance_type) X_train X_test) cs)"
    by (simp add: irun trained_on_def)
  show "frames_at_return (interpretable_feature_selection evaluate clf auc_limit importance_type
                              ci steps X_train X_test y_train y_test) = Some (X_train, X_test)"
    by (simp add: irun frames_at_return_def)
  show "trained_on (automated_feature_selection evaluate clf auc_limit importance_type ci steps
                        X_train X_test y_train y_test) =
            Some (map (call_of (ranked clf importance_type) X_train X_test) cs)"
    by (simp add: arun trained_on_def keep_all_if_not_frame)
  show "frames_at_return (automated_feature_selection evaluate clf auc_limit importance_type
                              ci steps X_train X_test y_train y_test) = Some (X_train, X_test)"
    by (simp add: arun frames_at_return_def keep_all_if_not_frame)
next
  assume a: "span_range start_num_features span' = Inr ps \<and>
          (\<forall>n\<in>set ps. evaluate (keep_columns (ranked clf importance_type) X_train n) y_train
                          (keep_columns (ranked clf importance_type) X_test n) y_test = Inr (g n))"
  then have ps: "span_range start_num_features span' = Inr ps"
    and ev: "\<forall>n\<in>set ps. evaluate (keep_columns (ranked clf importance_type) X_train n) y_train
                (keep_columns (ranked clf importance_type) X_test n) y_test = Inr (g n)"
    by simp_all
  note irun = interpretable_precise_feature_selection_run
    [where evaluate = evaluate and f = g and auc_limit = auc_limit and ci = ci, OF kind ps ev]
  note arun = automated_precise_feature_selection_run
    [where evaluate = evaluate and f = g and auc_limit = auc_limit and ci = ci, OF kind ps ev]
  show "trained_on (interpretable_precise_feature_selection evaluate clf start_num_features
                        auc_limit importance_type ci span' X_train X_test y_train y_test) =
            Some (map (call_of (ranked clf importance_type) X_train X_test) ps)"
    by (simp add: irun trained_on_def)
  show "frames_at_return (interpretable_precise_feature_selection evaluate clf start_num_features
                              auc_limit importance_type ci span' X_train X_test y_train y_test) =
            Some (X_train, X_test)"
    by (simp add: irun frames_at_return_def)
  show "trained_on (automated_precise_feature_selection evaluate clf start_num_features
                        auc_limit importance_type ci span' X_train X_test y_train y_test) =
            Some (map (call_of (ranked clf importance_type) X_train X_test) ps)"
    by (simp add: arun trained_on_def keep_start_if_not_frame)
  show "frames_at_return (automated_precise_feature_selection evaluate clf start_num_features
                              auc_limit importance_type ci span' X_train X_test y_train y_test) =
            Some (X_train, X_test)"
    by (simp add: arun frames_at_return_def keep_start_if_not_frame)
next
  assume "interpretable_body evaluate y_train y_test (ranked clf importance_type) auc_limit z n sti
            = Inr sti'"
  from interpretable_body_restores [OF this]
  show "xtrain sti' = org_xtrain sti" "xtest sti' = org_xtest sti"
    "org_xtrain sti' = org_xtrain sti" "org_xtest sti' = org_xtest sti"
    by simp_all
next
  assume "automated_body evaluate y_train y_test (ranked clf importance_type) auc_limit z n sta
            = Inr sta'"
  from automated_body_restores [OF this]
  show "xtrain sta' = org_xtrain sta" "xtest sta' = org_xtest sta"
    "org_xtrain sta' = org_xtrain sta" "org_xtest sta' = org_xtest sta"
    by simp_all
qed

theorem iterations_use_full_frames_witness:
  "trained_on (interpretable_feature_selection counting_trainer example_clf (15 / 100) ''gain'' 1 1
                 example_X example_X () ()) =
     Some [(3, [(0, ()), (1, ()), (3, ())], [(0, ()), (1, ()), (3, ())]),
           (2, [(1, ()), (3, ())], [(1, ()), (3, ())]),
           (1, [(1, ())], [(1, ())])] \<and>
   frames_at_return (interpretable_feature_selection counting_trainer example_clf (15 / 100) ''gain''
                       1 1 example_X example_X () ()) = Some (example_X, example_X) \<and>
   trained_on (automated_precise_feature_selection counting_trainer example_clf 2 (15 / 100) ''gain''
                 1 1 example_X example_X () ()) =
     Some [(3, [(0, ()), (1, ()), (3, ())], [(0, ()), (1, ()), (3, ())]),
           (2, [(1, ()), (3, ())], [(1, ()), (3, ())]),
           (1, [(1, ())], [(1, ())])] \<and>
   frames_at_return (automated_precise_feature_selection counting_trainer example_clf 2 (15 / 100)
                       ''gain'' 1 1 example_X example_X () ()) = Some (example_X, example_X)"
  using iterations_use_full_frames [OF gain_recognized, where clf = example_clf and steps = 1
      and cs = "[3, 2, 1]" and evaluate = counting_trainer
      and f = "\<lambda>n. real (length (keep_columns (ranked example_clf ''gain'') example_X n)) / 10"
      and g = "\<lambda>n. real (length (keep_columns (ranked example_clf ''gain'') example_X n)) / 10"
      and auc_limit = "15 / 100" and ci = 1 and start_num_features = 2
      and span' = 1 and ps = "[3, 2, 1]" and X_train = example_X and X_test = example_X
      and y_train = "()" and y_test = "()"]
  by (simp add: example_quartile_range_1 example_span_range_2_1 counting_trainer_def example_keep_columns example_X_nonempty
      call_of_def example_keep_columns)

section \<open>The smallest passing count\<close>

lemma span_range_descending:
  "span_range start_num_features span' = Inr ps \<Longrightarrow> sorted_wrt (\<lambda>a b. b < a) ps"
  by (auto simp add: span_range_def py_range_def range_down_descending)

lemma quartile_range_descending:
  assumes "quartile_range scores steps = Inr cs"
  shows "sorted_wrt (\<lambda>a b. b < a) cs"
proof -
  from assms obtain a b where "py_range a b (- \<bar>steps\<bar>) = Inr cs"
    by (auto simp add: quartile_range_def split: option.splits)
  then have "cs = range_down a b \<bar>steps\<bar>"
    by (auto simp add: py_range_def split: if_splits)
  then show ?thesis by (simp only: range_down_descending)
qed

text \<open>The automated searches when the last passing candidate is not 0.\<close>

lemma automated_precise_returns_smallest_passing:
  assumes kind: "importance_type \<in> set importance_types"
      and ps: "span_range start_num_features span' = Inr ps"
      and ev: "\<forall>n\<in>set ps. evaluate (keep_columns (ranked clf importance_type) X_train n) y_train
                    (keep_columns (ranked clf importance_type) X_test n) y_test = Inr (f n)"
      and some: "passing f (auc_limit * (ci - (1 - ci) / 2)) ps \<noteq> []"
      and nonzero: "Min {n \<in> set ps. auc_limit * (ci - (1 - ci) / 2) \<le> f n} \<noteq> 0"
  shows "returns (automated_precise_feature_selection evaluate clf start_num_features auc_limit
                    importance_type ci span' X_train X_test y_train y_test)
           (Some (Min {n \<in> set ps. auc_limit * (ci - (1 - ci) / 2) \<le> f n})) []"
proof -
  have "last_passing f (auc_limit * (ci - (1 - ci) / 2)) ps =
      Some (Min {n \<in> set ps. auc_limit * (ci - (1 - ci) / 2) \<le> f n})"
    using span_range_descending [OF ps] some by (rule last_passing_smallest)
  then show ?thesis
    using nonzero
    by (simp add: automated_precise_feature_selection_run
        [where evaluate = evaluate and f = f, OF kind ps ev]
        returns_def keep_start_if_not_def py_not_def)
qed

lemma automated_returns_smallest_passing:
  assumes kind: "importance_type \<in> set importance_types"
      and cs: "quartile_range (map snd (ranked clf importance_type)) steps = Inr cs"
      and ev: "\<forall>n\<in>set cs. evaluate (keep_columns (ranked clf importance_type) X_train n) y_train
                    (keep_columns (ranked clf importance_type) X_test n) y_test = Inr (f n)"
      and some: "passing f (auc_limit * (ci - (1 - ci) / 2)) cs \<noteq> []"
  shows "returns (automated_feature_selection evaluate clf auc_limit importance_type ci steps
                    X_train X_test y_train y_test)
           (Some (Min {n \<in> set cs. auc_limit * (ci - (1 - ci) / 2) \<le> f n})) []"
proof -
  define thr where "thr = auc_limit * (ci - (1 - ci) / 2)"
  have lp: "last_passing f thr cs = Some (Min {n \<in> set cs. thr \<le> f n})"
    using quartile_range_descending [OF cs] some unfolding thr_def by (rule last_passing_smallest)
  then have "Min {n \<in> set cs. thr \<le> f n} \<in> set cs"
    by (simp add: last_passing_Some)
  then have "1 \<le> Min {n \<in> set cs. thr \<le> f n}"
    using quartile_range_bounds [OF cs] by blast
  then have "Min {n \<in> set cs. thr \<le> f n} \<noteq> 0" by simp
  then show ?thesis
    using lp
    by (simp add: automated_feature_selection_run
        [where evaluate = evaluate and f = f, OF kind cs ev]
        returns_def keep_all_if_not_def py_not_def thr_def)
qed

lemma example_span_range_1_1: "span_range 1 1 = Inr [2, 1, 0]"
  by (simp add: span_range_def py_range_def range_down.simps)


text \<open>A run that returns has scored every scanned count; a count the trainer fails on ends the run.\<close>

lemma keep_columns_zero: "keep_columns R df 0 = []"
  by (simp add: keep_columns_def iloc_upto_def loc_isin_def)

lemma for_loop_append:
  "for_loop body (as @ bs) st =
     (case for_loop body as st of Inl e \<Rightarrow> Inl e | Inr st' \<Rightarrow> for_loop body bs st')"
  by (induction as arbitrary: st) (simp_all split: sum.splits)


lemma automated_body_raises:
  assumes "evaluate (keep_columns R (org_xtrain st) n) ytr
             (keep_columns R (org_xtest st) n) yte = Inl e"
      and "xtrain st = org_xtrain st" "xtest st = org_xtest st"
  shows "automated_body evaluate ytr yte R L z n st = Inl e"
  using assms
  by (simp add: automated_body_def train_and_score_def narrow_def keep_columns_def Let_def)



lemma automated_precise_feature_selection_raises:
  assumes kind: "importance_type \<in> set importance_types"
      and ps: "span_range start_num_features span' = Inr (as @ n # bs)"
      and ev: "\<forall>m\<in>set as. evaluate (keep_columns (ranked clf importance_type) X_train m) y_train
                    (keep_columns (ranked clf importance_type) X_test m) y_test = Inr (f m)"
      and fails: "evaluate (keep_columns (ranked clf importance_type) X_train n) y_train
                    (keep_columns (ranked clf importance_type) X_test n) y_test = Inl e"
  shows "automated_precise_feature_selection evaluate clf start_num_features auc_limit
           importance_type ci span' X_train X_test y_train y_test = Inl e"
proof -
  define st where "st = \<lparr>xtrain = X_train, xtest = X_test, org_xtrain = X_train,
                    org_xtest = X_test, calls = [], low_num_features = None\<rparr>"
  define body where "body = automated_body evaluate y_train y_test (ranked clf importance_type)
                              auc_limit (ci - (1 - ci) / 2)"
  have ev': "\<forall>m\<in>set as. evaluate (keep_columns (ranked clf importance_type) (org_xtrain st) m) y_train
                    (keep_columns (ranked clf importance_type) (org_xtest st) m) y_test = Inr (f m)"
    using ev by (simp add: st_def)
  have inv: "xtrain st = org_xtrain st" "xtest st = org_xtest st"
    by (simp_all add: st_def)
  define st1 where "st1 = st\<lparr>calls := calls st @ map (call_of (ranked clf importance_type)
                                 (org_xtrain st) (org_xtest st)) as,
            low_num_features := (case filter (\<lambda>n. f n \<ge> auc_limit * (ci - (1 - ci) / 2)) as of
               [] \<Rightarrow> low_num_features st | p # ps \<Rightarrow> Some (last (p # ps)))\<rparr>"
  have first: "for_loop body as st = Inr st1"
    unfolding body_def st1_def
    by (rule for_loop_automated [where evaluate = evaluate and f = f, OF ev' inv])
  have "automated_body evaluate y_train y_test (ranked clf importance_type) auc_limit
          (ci - (1 - ci) / 2) n st1 = Inl e"
    by (rule automated_body_raises) (use fails in \<open>simp_all add: st1_def st_def\<close>)
  then have "for_loop body (n # bs) st1 = Inl e"
    by (simp add: body_def)
  with first have "for_loop body (as @ n # bs) st = Inl e"
    by (simp add: for_loop_append)
  then show ?thesis
    using kind ps
    by (simp add: automated_precise_feature_selection_def get_score_def ranked_def [symmetric]
        st_def [symmetric] body_def [symmetric])
qed

lemma passing_nonempty: "(passing f thr cs \<noteq> []) = (\<exists>n\<in>set cs. thr \<le> f n)"
  by (auto simp add: passing_def filter_empty_conv)

lemma zero_not_scored:
  assumes empty: "\<forall>b s. evaluate [] y_train b y_test \<noteq> Inr s"
      and ev: "\<forall>n\<in>set ps. evaluate (keep_columns R X_train n) y_train
                    (keep_columns R X_test n) y_test = Inr (g n)"
  shows "0 \<notin> set ps"
proof
  assume "0 \<in> set ps"
  with ev have "evaluate (keep_columns R X_train 0) y_train (keep_columns R X_test 0) y_test
      = Inr (g 0)" by blast
  then have "evaluate [] y_train (keep_columns R X_test 0) y_test = Inr (g 0)"
    by (simp only: keep_columns_zero [of R X_train])
  with empty show False by blast
qed

lemma smallest_passing_nonzero:
  assumes "0 \<notin> set ps" and "passing g thr ps \<noteq> []"
  shows "Min {n \<in> set ps. thr \<le> g n} \<noteq> 0"
proof -
  have "finite {n \<in> set ps. thr \<le> g n}" by simp
  moreover have "{n \<in> set ps. thr \<le> g n} \<noteq> {}"
    using assms(2) by (auto simp add: passing_def filter_empty_conv)
  ultimately have "Min {n \<in> set ps. thr \<le> g n} \<in> {n \<in> set ps. thr \<le> g n}"
    by (rule Min_in)
  with assms(1) show ?thesis by auto
qed

lemma example_counting_all_pass:
  "{n \<in> set [3, 2, 1].
      1 / 10 \<le> real (length (keep_columns (ranked example_clf ''gain'') example_X n)) / 10} =
   {3, 2, 1}"
  by (auto simp add: example_keep_columns)



text \<open>
  Claim C1. Each time a candidate's score reaches the threshold the loop body of the automated
  searches assigns the candidate count to \<^verbatim>\<open>low_num_features\<close>, and the counts are scanned in
  strictly descending order; so, when at least one scanned candidate passes, both automated
  searches return the smallest scanned count that passed, with no warning. This holds for
  every score function \<open>f\<close>, \<open>g\<close> (a monotonically decreasing one included). The trainer is
  taken to return no score on a training frame with no columns, which is what the source's
  xgboost calls do; the count 0 therefore never carries a score.
\<close>

theorem automated_searches_return_smallest_passing:
  assumes kind: "importance_type \<in> set importance_types"
      and empty: "\<forall>b s. evaluate [] y_train b y_test \<noteq> Inr s"
  shows "(quartile_range (map snd (ranked clf importance_type)) steps = Inr cs \<and>
          (\<forall>n\<in>set cs. evaluate (keep_columns (ranked clf importance_type) X_train n) y_train
                          (keep_columns (ranked clf importance_type) X_test n) y_test = Inr (f n)) \<and>
          (\<exists>n\<in>set cs. auc_limit * (ci - (1 - ci) / 2) \<le> f n) \<longrightarrow>
          returns (automated_feature_selection evaluate clf auc_limit importance_type ci steps
                     X_train X_test y_train y_test)
            (Some (Min {n \<in> set cs. auc_limit * (ci - (1 - ci) / 2) \<le> f n})) []) \<and>
         (span_range start_num_features span' = Inr ps \<and>
          (\<forall>n\<in>set ps. evaluate (keep_columns (ranked clf importance_type) X_train n) y_train
                          (keep_columns (ranked clf importance_type) X_test n) y_test = Inr (g n)) \<and>
          (\<exists>n\<in>set ps. auc_limit * (ci - (1 - ci) / 2) \<le> g n) \<longrightarrow>
          returns (automated_precise_feature_selection evaluate clf start_num_features auc_limit
                     importance_type ci span' X_train X_test y_train y_test)
            (Some (Min {n \<in> set ps. auc_limit * (ci - (1 - ci) / 2) \<le> g n})) []) \<and>
         (evaluate (keep_columns (ranked clf importance_type) (org_xtrain st) n) y_train
            (keep_columns (ranked clf importance_type) (org_xtest st) n) y_test = Inr s \<and>
          xtrain st = org_xtrain st \<and> xtest st = org_xtest st \<longrightarrow>
          automated_body evaluate y_train y_test (ranked clf importance_type) auc_limit
              (ci - (1 - ci) / 2) n st =
            Inr (st\<lparr>calls := calls st @ [call_of (ranked clf importance_type)
                                            (org_xtrain st) (org_xtest st) n],
                   low_num_features :=
                     (if auc_limit * (ci - (1 - ci) / 2) \<le> s then Some n
                      else low_num_features st)\<rparr>))"
proof (intro conjI impI)
  assume a: "quartile_range (map snd (ranked clf importance_type)) steps = Inr cs \<and>
          (\<forall>n\<in>set cs. evaluate (keep_columns (ranked clf importance_type) X_train n) y_train
                          (keep_columns (ranked clf importance_type) X_test n) y_test = Inr (f n)) \<and>
          (\<exists>n\<in>set cs. auc_limit * (ci - (1 - ci) / 2) \<le> f n)"
  then have cs: "quartile_range (map snd (ranked clf importance_type)) steps = Inr cs"
    and ev: "\<forall>n\<in>set cs. evaluate (keep_columns (ranked clf importance_type) X_train n) y_train
                (keep_columns (ranked clf importance_type) X_test n) y_test = Inr (f n)"
    and some: "passing f (auc_limit * (ci - (1 - ci) / 2)) cs \<noteq> []"
    by (simp_all add: passing_nonempty)
  show "returns (automated_feature_selection evaluate clf auc_limit importance_type ci steps
                     X_train X_test y_train y_test)
            (Some (Min {n \<in> set cs. auc_limit * (ci - (1 - ci) / 2) \<le> f n})) []"
    by (rule automated_returns_smallest_passing [where evaluate = evaluate, OF kind cs ev some])
next
  assume a: "span_range start_num_features span' = Inr ps \<and>
          (\<forall>n\<in>set ps. evaluate (keep_columns (ranked clf importance_type) X_train n) y_train
                          (keep_columns (ranked clf importance_type) X_test n) y_test = Inr (g n)) \<and>
          (\<exists>n\<in>set ps. auc_limit * (ci - (1 - ci) / 2) \<le> g n)"
  then have ps: "span_range start_num_features span' = Inr ps"
    and ev: "\<forall>n\<in>set ps. evaluate (keep_columns (ranked clf importance_type) X_train n) y_train
                (keep_columns (ranked clf importance_type) X_test n) y_test = Inr (g n)"
    and some: "passing g (auc_limit * (ci - (1 - ci) / 2)) ps \<noteq> []"
    by (simp_all add: passing_nonempty)
  have "0 \<notin> set ps"
    using empty ev by (rule zero_not_scored)
  then have nonzero: "Min {n \<in> set ps. auc_limit * (ci - (1 - ci) / 2) \<le> g n} \<noteq> 0"
    using some by (rule smallest_passing_nonzero)
  show "returns (automated_precise_feature_selection evaluate clf start_num_features auc_limit
                     importance_type ci span' X_train X_test y_train y_test)
            (Some (Min {n \<in> set ps. auc_limit * (ci - (1 - ci) / 2) \<le> g n})) []"
    by (rule automated_precise_returns_smallest_passing
        [where evaluate = evaluate, OF kind ps ev some nonzero])
next
  assume a: "evaluate (keep_columns (ranked clf importance_type) (org_xtrain st) n) y_train
            (keep_columns (ranked clf importance_type) (org_xtest st) n) y_test = Inr s \<and>
          xtrain st = org_xtrain st \<and> xtest st = org_xtest st"
  then have ev: "evaluate (keep_columns (ranked clf importance_type) (org_xtrain st) n) y_train
            (keep_columns (ranked clf importance_type) (org_xtest st) n) y_test = Inr s"
    and inv: "xtrain st = org_xtrain st" "xtest st = org_xtest st"
    by simp_all
  show "automated_body evaluate y_train y_test (ranked clf importance_type) auc_limit
              (ci - (1 - ci) / 2) n st =
            Inr (st\<lparr>calls := calls st @ [call_of (ranked clf importance_type)
                                            (org_xtrain st) (org_xtest st) n],
                   low_num_features :=
                     (if auc_limit * (ci - (1 - ci) / 2) \<le> s then Some n
                      else low_num_features st)\<rparr>)"
    by (rule automated_body_step [where evaluate = evaluate, OF ev inv])
qed

theorem automated_searches_return_smallest_passing_witness:
  "returns (automated_feature_selection counting_trainer example_clf (1 / 10) ''gain'' 1 1
              example_X example_X () ())
     (Some 1) [] \<and>
   returns (automated_precise_feature_selection counting_trainer example_clf 2 (1 / 10) ''gain'' 1 1
              example_X example_X () ())
     (Some 1) []"
proof -
  have empty: "\<forall>b s. counting_trainer [] () b () \<noteq> Inr s"
    by (simp add: counting_trainer_def)
  have m: "Min {n \<in> set [3, 2, 1].
      1 / 10 \<le> real (length (keep_columns (ranked example_clf ''gain'') example_X n)) / 10} = 1"
    by (simp only: example_counting_all_pass) simp
  from automated_searches_return_smallest_passing
      [where evaluate = counting_trainer and y_train = "()" and y_test = "()"
      and importance_type = "''gain''" and clf = example_clf and steps = 1 and cs = "[3, 2, 1]"
      and f = "\<lambda>n. real (length (keep_columns (ranked example_clf ''gain'') example_X n)) / 10"
      and g = "\<lambda>n. real (length (keep_columns (ranked example_clf ''gain'') example_X n)) / 10"
      and auc_limit = "1 / 10" and ci = 1 and start_num_features = 2
      and span' = 1 and ps = "[3, 2, 1]" and X_train = example_X and X_test = example_X
      and st = "\<lparr>xtrain = example_X, xtest = example_X, org_xtrain = example_X,
                  org_xtest = example_X, calls = [], low_num_features = None\<rparr>"
      and n = 3 and s = "3 / 10", OF gain_recognized empty]
  have "returns (automated_feature_selection counting_trainer example_clf (1 / 10) ''gain'' 1 1
              example_X example_X () ())
          (Some (Min {n \<in> set [3, 2, 1].
             1 / 10 \<le> real (length (keep_columns (ranked example_clf ''gain'') example_X n)) / 10})) [] \<and>
        returns (automated_precise_feature_selection counting_trainer example_clf 2 (1 / 10) ''gain'' 1 1
              example_X example_X () ())
          (Some (Min {n \<in> set [3, 2, 1].
             1 / 10 \<le> real (length (keep_columns (ranked example_clf ''gain'') example_X n)) / 10})) []"
    by (simp add: example_quartile_range_1 example_span_range_2_1 counting_trainer_def
        example_keep_columns example_X_nonempty)
  then show ?thesis by (simp only: m)
qed

section \<open>A count of zero\<close>




section \<open>The acceptance test and the exploratory result\<close>

text \<open>
  Claim C2. In all four functions a candidate \<open>n\<close> with score \<open>f n\<close> is accepted exactly
  when \<open>f n \<ge> auc_limit * (ci - (1 - ci) / 2)\<close>, greater or equal: the exploratory
  searches return the pairs of exactly the candidates that satisfy it, and the result
  variable of the automated searches is, after the loop, the last candidate that satisfies
  it (\<^verbatim>\<open>None\<close> if there is none). With \<open>ci = 1\<close> that threshold is \<open>auc_limit\<close>. This holds
  for every \<open>auc_limit\<close> and every \<open>ci\<close>, so for \<open>0 < ci \<le> 1\<close>. Scores are reals here.
\<close>

theorem acceptance_threshold:
  assumes kind: "importance_type \<in> set importance_types"
  shows "(quartile_range (map snd (ranked clf importance_type)) steps = Inr cs \<and>
          (\<forall>n\<in>set cs. evaluate (keep_columns (ranked clf importance_type) X_train n) y_train
                          (keep_columns (ranked clf importance_type) X_test n) y_test = Inr (f n)) \<longrightarrow>
          returns (interpretable_feature_selection evaluate clf auc_limit importance_type ci steps
                     X_train X_test y_train y_test)
            (map (\<lambda>n. (py_round (f n) 4, n))
               (filter (\<lambda>n. f n \<ge> auc_limit * (ci - (1 - ci) / 2)) cs))
            (if filter (\<lambda>n. f n \<ge> auc_limit * (ci - (1 - ci) / 2)) cs = []
             then [UserWarning (Cant_keep_75_to_25 auc_limit)] else []) \<and>
          automated_feature_selection evaluate clf auc_limit importance_type ci steps
              X_train X_test y_train y_test =
            Inr (keep_all_if_not
                   \<lparr>xtrain = X_train, xtest = X_test, org_xtrain = X_train, org_xtest = X_test,
                     calls = map (call_of (ranked clf importance_type) X_train X_test) cs,
                     low_num_features =
                       (case filter (\<lambda>n. f n \<ge> auc_limit * (ci - (1 - ci) / 2)) cs of
                          [] \<Rightarrow> None | p # ps \<Rightarrow> Some (last (p # ps)))\<rparr>)) \<and>
         (span_range start_num_features span' = Inr ps \<and>
          (\<forall>n\<in>set ps. evaluate (keep_columns (ranked clf importance_type) X_train n) y_train
                          (keep_columns (ranked clf importance_type) X_test n) y_test = Inr (g n)) \<longrightarrow>
          returns (interpretable_precise_feature_selection evaluate clf start_num_features auc_limit
                     importance_type ci span' X_train X_test y_train y_test)
            (map (\<lambda>n. (py_round (g n) 4, n))
               (filter (\<lambda>n. g n \<ge> auc_limit * (ci - (1 - ci) / 2)) ps))
            (if filter (\<lambda>n. g n \<ge> auc_limit * (ci - (1 - ci) / 2)) ps = []
             then [UserWarning Cant_find_as_few_interpretable] else []) \<and>
          automated_precise_feature_selection evaluate clf start_num_features auc_limit
              importance_type ci span' X_train X_test y_train y_test =
            Inr (keep_start_if_not start_num_features
                   \<lparr>xtrain = X_train, xtest = X_test, org_xtrain = X_train, org_xtest = X_test,
                     calls = map (call_of (ranked clf importance_type) X_train X_test) ps,
                     low_num_features =
                       (case filter (\<lambda>n. g n \<ge> auc_limit * (ci - (1 - ci) / 2)) ps of
                          [] \<Rightarrow> None | p # qs \<Rightarrow> Some (last (p # qs)))\<rparr>)) \<and>
         (ci = 1 \<longrightarrow> auc_limit * (ci - (1 - ci) / 2) = auc_limit)"
proof (intro conjI impI)
  assume a: "quartile_range (map snd (ranked clf importance_type)) steps = Inr cs \<and>
          (\<forall>n\<in>set cs. evaluate (keep_columns (ranked clf importance_type) X_train n) y_train
                          (keep_columns (ranked clf importance_type) X_test n) y_test = Inr (f n))"
  then have cs: "quartile_range (map snd (ranked clf importance_type)) steps = Inr cs"
    and ev: "\<forall>n\<in>set cs. evaluate (keep_columns (ranked clf importance_type) X_train n) y_train
                (keep_columns (ranked clf importance_type) X_test n) y_test = Inr (f n)"
    by simp_all
  show "returns (interpretable_feature_selection evaluate clf auc_limit importance_type ci steps
                     X_train X_test y_train y_test)
            (map (\<lambda>n. (py_round (f n) 4, n))
               (filter (\<lambda>n. f n \<ge> auc_limit * (ci - (1 - ci) / 2)) cs))
            (if filter (\<lambda>n. f n \<ge> auc_limit * (ci - (1 - ci) / 2)) cs = []
             then [UserWarning (Cant_keep_75_to_25 auc_limit)] else [])"
    by (simp add: interpretable_feature_selection_run
        [where evaluate = evaluate and f = f, OF kind cs ev] returns_def passing_def)
  show "automated_feature_selection evaluate clf auc_limit importance_type ci steps
              X_train X_test y_train y_test =
            Inr (keep_all_if_not
                   \<lparr>xtrain = X_train, xtest = X_test, org_xtrain = X_train, org_xtest = X_test,
                     calls = map (call_of (ranked clf importance_type) X_train X_test) cs,
                     low_num_features =
                       (case filter (\<lambda>n. f n \<ge> auc_limit * (ci - (1 - ci) / 2)) cs of
                          [] \<Rightarrow> None | p # ps \<Rightarrow> Some (last (p # ps)))\<rparr>)"
    by (simp only: automated_feature_selection_run
        [where evaluate = evaluate and f = f, OF kind cs ev] last_passing_def passing_def)
next
  assume a: "span_range start_num_features span' = Inr ps \<and>
          (\<forall>n\<in>set ps. evaluate (keep_columns (ranked clf importance_type) X_train n) y_train
                          (keep_columns (ranked clf importance_type) X_test n) y_test = Inr (g n))"
  then have ps: "span_range start_num_features span' = Inr ps"
    and ev: "\<forall>n\<in>set ps. evaluate (keep_columns (ranked clf importance_type) X_train n) y_train
                (keep_columns (ranked clf importance_type) X_test n) y_test = Inr (g n)"
    by simp_all
  show "returns (interpretable_precise_feature_selection evaluate clf start_num_features auc_limit
                     importance_type ci span' X_train X_test y_train y_test)
            (map (\<lambda>n. (py_round (g n) 4, n))
               (filter (\<lambda>n. g n \<ge> auc_limit * (ci - (1 - ci) / 2)) ps))
            (if filter (\<lambda>n. g n \<ge> auc_limit * (ci - (1 - ci) / 2)) ps = []
             then [UserWarning Cant_find_as_few_interpretable] else [])"
    by (simp add: interpretable_precise_feature_selection_run
        [where evaluate = evaluate and f = g, OF kind ps ev] returns_def passing_def)
  show "automated_precise_feature_selection evaluate clf start_num_features auc_limit
              importance_type ci span' X_train X_test y_train y_test =
            Inr (keep_start_if_not start_num_features
                   \<lparr>xtrain = X_train, xtest = X_test, org_xtrain = X_train, org_xtest = X_test,
                     calls = map (call_of (ranked clf importance_type) X_train X_test) ps,
                     low_num_features =
                       (case filter (\<lambda>n. g n \<ge> auc_limit * (ci - (1 - ci) / 2)) ps of
                          [] \<Rightarrow> None | p # qs \<Rightarrow> Some (last (p # qs)))\<rparr>)"
    by (simp only: automated_precise_feature_selection_run
        [where evaluate = evaluate and f = g, OF kind ps ev] last_passing_def passing_def)
next
  assume "ci = 1"
  then show "auc_limit * (ci - (1 - ci) / 2) = auc_limit" by simp
qed

lemma example_py_round:
  "py_round (3 / 10) 4 = 3 / 10" "py_round (1 / 5) 4 = 1 / 5" "py_round (1 / 10) 4 = 1 / 10"
  "py_round (49383 / 50000) 4 = 9877 / 10000"
  by (simp_all add: py_round_def rint_def Let_def)

theorem acceptance_threshold_witness:
  "returns (interpretable_feature_selection counting_trainer example_clf (2 / 10) ''gain'' 1 1
              example_X example_X () ())
     [(3 / 10, 3), (2 / 10, 2)] [] \<and>
   returns (interpretable_precise_feature_selection counting_trainer example_clf 2 (2 / 10) ''gain'' 1 1
              example_X example_X () ())
     [(3 / 10, 3), (2 / 10, 2)] [] \<and>
   returns (automated_feature_selection counting_trainer example_clf (2 / 10) ''gain'' 1 1
              example_X example_X () ())
     (Some 2) [] \<and>
   returns (automated_precise_feature_selection counting_trainer example_clf 2 (2 / 10) ''gain'' 1 1
              example_X example_X () ())
     (Some 2) []"
  using acceptance_threshold [OF gain_recognized, where clf = example_clf and steps = 1
      and cs = "[3, 2, 1]" and evaluate = counting_trainer
      and f = "\<lambda>n. real (length (keep_columns (ranked example_clf ''gain'') example_X n)) / 10"
      and g = "\<lambda>n. real (length (keep_columns (ranked example_clf ''gain'') example_X n)) / 10"
      and auc_limit = "2 / 10" and ci = 1 and start_num_features = 2
      and span' = 1 and ps = "[3, 2, 1]" and X_train = example_X and X_test = example_X
      and y_train = "()" and y_test = "()"]
  by (simp add: example_quartile_range_1 example_span_range_2_1 counting_trainer_def example_keep_columns example_X_nonempty
      example_keep_columns example_py_round returns_def keep_all_if_not_def keep_start_if_not_def
      py_not_def)

subsection \<open>The pairs of the exploratory searches\<close>

text \<open>
  Claim C6, as amended. The exploratory searches return, for exactly the candidates whose
  score passes the threshold and in the order of the scan, the pair of the score rounded
  to four decimals (\<^verbatim>\<open>round(auc, 4)\<close>) and the count; the counts of the list are
  strictly descending.
\<close>

theorem exploratory_returns_rounded_pairs:
  assumes kind: "importance_type \<in> set importance_types"
  shows "(quartile_range (map snd (ranked clf importance_type)) steps = Inr cs \<and>
          (\<forall>n\<in>set cs. evaluate (keep_columns (ranked clf importance_type) X_train n) y_train
                          (keep_columns (ranked clf importance_type) X_test n) y_test = Inr (f n)) \<longrightarrow>
          returns (interpretable_feature_selection evaluate clf auc_limit importance_type ci steps
                     X_train X_test y_train y_test)
            (map (\<lambda>n. (py_round (f n) 4, n)) (passing f (auc_limit * (ci - (1 - ci) / 2)) cs))
            (if passing f (auc_limit * (ci - (1 - ci) / 2)) cs = []
             then [UserWarning (Cant_keep_75_to_25 auc_limit)] else []) \<and>
          sorted_wrt (\<lambda>a b. b < a) (passing f (auc_limit * (ci - (1 - ci) / 2)) cs)) \<and>
         (span_range start_num_features span' = Inr ps \<and>
          (\<forall>n\<in>set ps. evaluate (keep_columns (ranked clf importance_type) X_train n) y_train
                          (keep_columns (ranked clf importance_type) X_test n) y_test = Inr (g n)) \<longrightarrow>
          returns (interpretable_precise_feature_selection evaluate clf start_num_features auc_limit
                     importance_type ci span' X_train X_test y_train y_test)
            (map (\<lambda>n. (py_round (g n) 4, n)) (passing g (auc_limit * (ci - (1 - ci) / 2)) ps))
            (if passing g (auc_limit * (ci - (1 - ci) / 2)) ps = []
             then [UserWarning Cant_find_as_few_interpretable] else []) \<and>
          sorted_wrt (\<lambda>a b. b < a) (passing g (auc_limit * (ci - (1 - ci) / 2)) ps))"
proof (intro conjI impI)
  assume a: "quartile_range (map snd (ranked clf importance_type)) steps = Inr cs \<and>
          (\<forall>n\<in>set cs. evaluate (keep_columns (ranked clf importance_type) X_train n) y_train
                          (keep_columns (ranked clf importance_type) X_test n) y_test = Inr (f n))"
  then have cs: "quartile_range (map snd (ranked clf importance_type)) steps = Inr cs"
    and ev: "\<forall>n\<in>set cs. evaluate (keep_columns (ranked clf importance_type) X_train n) y_train
                (keep_columns (ranked clf importance_type) X_test n) y_test = Inr (f n)"
    by simp_all
  show "returns (interpretable_feature_selection evaluate clf auc_limit importance_type ci steps
                     X_train X_test y_train y_test)
            (map (\<lambda>n. (py_round (f n) 4, n)) (passing f (auc_limit * (ci - (1 - ci) / 2)) cs))
            (if passing f (auc_limit * (ci - (1 - ci) / 2)) cs = []
             then [UserWarning (Cant_keep_75_to_25 auc_limit)] else [])"
    by (simp add: interpretable_feature_selection_run
        [where evaluate = evaluate and f = f, OF kind cs ev] returns_def)
  show "sorted_wrt (\<lambda>a b. b < a) (passing f (auc_limit * (ci - (1 - ci) / 2)) cs)"
    using quartile_range_descending [OF cs] by (rule passing_descending)
next
  assume a: "span_range start_num_features span' = Inr ps \<and>
          (\<forall>n\<in>set ps. evaluate (keep_columns (ranked clf importance_type) X_train n) y_train
                          (keep_columns (ranked clf importance_type) X_test n) y_test = Inr (g n))"
  then have ps: "span_range start_num_features span' = Inr ps"
    and ev: "\<forall>n\<in>set ps. evaluate (keep_columns (ranked clf importance_type) X_train n) y_train
                (keep_columns (ranked clf importance_type) X_test n) y_test = Inr (g n)"
    by simp_all
  show "returns (interpretable_precise_feature_selection evaluate clf start_num_features auc_limit
                     importance_type ci span' X_train X_test y_train y_test)
            (map (\<lambda>n. (py_round (g n) 4, n)) (passing g (auc_limit * (ci - (1 - ci) / 2)) ps))
            (if passing g (auc_limit * (ci - (1 - ci) / 2)) ps = []
             then [UserWarning Cant_find_as_few_interpretable] else [])"
    by (simp add: interpretable_precise_feature_selection_run
        [where evaluate = evaluate and f = g, OF kind ps ev] returns_def)
  show "sorted_wrt (\<lambda>a b. b < a) (passing g (auc_limit * (ci - (1 - ci) / 2)) ps)"
    using span_range_descending [OF ps] by (rule passing_descending)
qed

theorem exploratory_returns_rounded_pairs_witness:
  "returns (interpretable_feature_selection (constant_trainer (49383 / 50000)) example_clf (1 / 2)
              ''gain'' 1 1 example_X example_X () ())
     [(9877 / 10000, 3), (9877 / 10000, 2), (9877 / 10000, 1)] [] \<and>
   returns (interpretable_precise_feature_selection (constant_trainer (49383 / 50000)) example_clf 2
              (1 / 2) ''gain'' 1 1 example_X example_X () ())
     [(9877 / 10000, 3), (9877 / 10000, 2), (9877 / 10000, 1)] []"
  using exploratory_returns_rounded_pairs [OF gain_recognized, where clf = example_clf and steps = 1
      and cs = "[3, 2, 1]" and evaluate = "constant_trainer (49383 / 50000)"
      and f = "\<lambda>n. 49383 / 50000" and g = "\<lambda>n. 49383 / 50000"
      and auc_limit = "1 / 2" and ci = 1 and start_num_features = 2
      and span' = 1 and ps = "[3, 2, 1]" and X_train = example_X and X_test = example_X
      and y_train = "()" and y_test = "()"]
  by (simp add: example_quartile_range_1 example_span_range_2_1 constant_trainer_def example_keep_columns example_X_nonempty
      example_py_round passing_def)

text \<open>
  Claim C6 as stated fails: with a trainer whose score for the top three features is
  0.98766 the exploratory precise search returns the pair (0.9877, 3), not the pair of
  the score and the count.
\<close>

theorem exploratory_pairs_hold_rounded_score:
  "constant_trainer (49383 / 50000) (keep_columns (ranked example_clf ''gain'') example_X 3) ()
     (keep_columns (ranked example_clf ''gain'') example_X 3) () = Inr (49383 / 50000) \<and>
   returns (interpretable_precise_feature_selection (constant_trainer (49383 / 50000)) example_clf 3
              (1 / 2) ''gain'' 1 0 example_X example_X () ())
     [(9877 / 10000, 3)] [] \<and>
   \<not> returns (interpretable_precise_feature_selection (constant_trainer (49383 / 50000)) example_clf 3
              (1 / 2) ''gain'' 1 0 example_X example_X () ())
     [(49383 / 50000, 3)] []"
proof -
  have ps: "span_range 3 0 = Inr [3]"
    by (simp add: span_range_def py_range_def range_down.simps)
  have ev: "\<forall>n\<in>set [3].
      constant_trainer (49383 / 50000) (keep_columns (ranked example_clf ''gain'') example_X n) ()
        (keep_columns (ranked example_clf ''gain'') example_X n) () = Inr (49383 / 50000)"
    by (simp add: constant_trainer_def example_keep_columns example_X_nonempty)
  show ?thesis
    by (simp add: interpretable_precise_feature_selection_run
        [where evaluate = "constant_trainer (49383 / 50000)" and f = "\<lambda>n. 49383 / 50000",
          OF gain_recognized ps ev]
        returns_def passing_def example_py_round constant_trainer_def example_keep_columns example_X_nonempty)
qed

section \<open>Candidate counts and the columns they select\<close>

lemma length_ranked: "length (ranked clf importance_type) = length (clf importance_type)"
  by (simp add: ranked_def sort_values_desc_def)

lemma set_ranked: "set (ranked clf importance_type) = set (clf importance_type)"
  by (simp add: ranked_def sort_values_desc_def)

lemma ranked_descending:
  "sorted_wrt (\<lambda>p q. snd q \<le> snd p) (ranked clf importance_type)"
proof -
  have "sorted (map (\<lambda>p. - snd p) (ranked clf importance_type))"
    by (simp add: ranked_def sort_values_desc_def)
  then show ?thesis
    by (simp add: sorted_map)
qed

lemma keep_columns_top:
  "0 \<le> n \<Longrightarrow> keep_columns R df n = loc_isin df (map fst (take (nat n) R))"
  by (simp add: keep_columns_def iloc_upto_def)

lemma call_of_top:
  assumes "\<forall>n\<in>set cs. 0 \<le> n"
  shows "map (call_of R X_train X_test) cs =
         map (\<lambda>n. (n, loc_isin X_train (map fst (take (nat n) R)),
                       loc_isin X_test (map fst (take (nat n) R)))) cs"
  using assms by (intro map_cong) (simp_all add: call_of_def keep_columns_top)

lemma columns_loc_isin:
  "set keep \<subseteq> set (columns df) \<Longrightarrow> set (columns (loc_isin df keep)) = set keep"
  by (auto simp add: columns_def loc_isin_def)

lemma ranked_fits_frame:
  assumes "distinct (map fst (clf importance_type))"
      and "set (map fst (clf importance_type)) \<subseteq> set (columns df)"
  shows "length (ranked clf importance_type) \<le> length (columns df)"
proof -
  have "length (clf importance_type) = card (set (map fst (clf importance_type)))"
    using distinct_card [OF assms(1)] by simp
  also have "\<dots> \<le> card (set (columns df))"
    using assms(2) by (intro card_mono) simp_all
  also have "\<dots> \<le> length (columns df)"
    by (rule card_length)
  finally show ?thesis by (simp add: length_ranked)
qed

text \<open>
  Claim C7, as amended. Every count the two broad searches train on lies between 1 and the
  number of ranked features (the features of the importance table), and so does every
  count of the two precise searches provided \<open>1 \<le> start_num_features - span'\<close> and
  \<open>start_num_features + span'\<close> is at most the number of ranked features. Such a count \<open>n\<close>
  is trained and scored on the columns of the train and test frames that are among the
  first \<open>n\<close> ranked features; when the importance table has distinct features that are
  all columns of a frame, there are at most as many ranked features as columns and the
  selected columns are exactly the first \<open>n\<close> ranked features. The trainer is assumed to
  return a score for every scanned count.
\<close>

theorem candidates_and_their_subsets:
  assumes kind: "importance_type \<in> set importance_types"
  shows "(quartile_range (map snd (ranked clf importance_type)) steps = Inr cs \<and>
          (\<forall>n\<in>set cs. evaluate (keep_columns (ranked clf importance_type) X_train n) y_train
                          (keep_columns (ranked clf importance_type) X_test n) y_test = Inr (f n)) \<longrightarrow>
          trained_on (interpretable_feature_selection evaluate clf auc_limit importance_type ci steps
                        X_train X_test y_train y_test) =
            Some (map (\<lambda>n. (n, loc_isin X_train (map fst (take (nat n) (ranked clf importance_type))),
                              loc_isin X_test (map fst (take (nat n) (ranked clf importance_type))))) cs) \<and>
          trained_on (automated_feature_selection evaluate clf auc_limit importance_type ci steps
                        X_train X_test y_train y_test) =
            Some (map (\<lambda>n. (n, loc_isin X_train (map fst (take (nat n) (ranked clf importance_type))),
                              loc_isin X_test (map fst (take (nat n) (ranked clf importance_type))))) cs) \<and>
          (\<forall>n\<in>set cs. 1 \<le> n \<and> n \<le> int (length (ranked clf importance_type)))) \<and>
         (span_range start_num_features span' = Inr ps \<and>
          (\<forall>n\<in>set ps. evaluate (keep_columns (ranked clf importance_type) X_train n) y_train
                          (keep_columns (ranked clf importance_type) X_test n) y_test = Inr (g n)) \<and>
          1 \<le> start_num_features - span' \<and>
          start_num_features + span' \<le> int (length (ranked clf importance_type)) \<longrightarrow>
          trained_on (interpretable_precise_feature_selection evaluate clf start_num_features
                        auc_limit importance_type ci span' X_train X_test y_train y_test) =
            Some (map (\<lambda>n. (n, loc_isin X_train (map fst (take (nat n) (ranked clf importance_type))),
                              loc_isin X_test (map fst (take (nat n) (ranked clf importance_type))))) ps) \<and>
          trained_on (automated_precise_feature_selection evaluate clf start_num_features
                        auc_limit importance_type ci span' X_train X_test y_train y_test) =
            Some (map (\<lambda>n. (n, loc_isin X_train (map fst (take (nat n) (ranked clf importance_type))),
                              loc_isin X_test (map fst (take (nat n) (ranked clf importance_type))))) ps) \<and>
          (\<forall>n\<in>set ps. 1 \<le> n \<and> n \<le> int (length (ranked clf importance_type)))) \<and>
         length (ranked clf importance_type) = length (clf importance_type) \<and>
         (distinct (map fst (clf importance_type)) \<and>
          set (map fst (clf importance_type)) \<subseteq> set (columns df) \<longrightarrow>
          length (ranked clf importance_type) \<le> length (columns df) \<and>
          (\<forall>n. set (columns (loc_isin df (map fst (take (nat n) (ranked clf importance_type))))) =
                 set (map fst (take (nat n) (ranked clf importance_type)))))"
proof (intro conjI impI)
  assume a: "quartile_range (map snd (ranked clf importance_type)) steps = Inr cs \<and>
          (\<forall>n\<in>set cs. evaluate (keep_columns (ranked clf importance_type) X_train n) y_train
                          (keep_columns (ranked clf importance_type) X_test n) y_test = Inr (f n))"
  then have cs: "quartile_range (map snd (ranked clf importance_type)) steps = Inr cs"
    and ev: "\<forall>n\<in>set cs. evaluate (keep_columns (ranked clf importance_type) X_train n) y_train
                (keep_columns (ranked clf importance_type) X_test n) y_test = Inr (f n)"
    by simp_all
  have b: "\<forall>n\<in>set cs. 1 \<le> n \<and> n \<le> int (length (ranked clf importance_type))"
    using quartile_range_bounds [OF cs] by simp
  then have nonneg: "\<forall>n\<in>set cs. 0 \<le> n" by auto
  show "\<forall>n\<in>set cs. 1 \<le> n \<and> n \<le> int (length (ranked clf importance_type))" by (rule b)
  show "trained_on (interpretable_feature_selection evaluate clf auc_limit importance_type ci steps
                        X_train X_test y_train y_test) =
            Some (map (\<lambda>n. (n, loc_isin X_train (map fst (take (nat n) (ranked clf importance_type))),
                              loc_isin X_test (map fst (take (nat n) (ranked clf importance_type))))) cs)"
    by (simp add: interpretable_feature_selection_run
        [where evaluate = evaluate and f = f, OF kind cs ev] trained_on_def call_of_top [OF nonneg])
  show "trained_on (automated_feature_selection evaluate clf auc_limit importance_type ci steps
                        X_train X_test y_train y_test) =
            Some (map (\<lambda>n. (n, loc_isin X_train (map fst (take (nat n) (ranked clf importance_type))),
                              loc_isin X_test (map fst (take (nat n) (ranked clf importance_type))))) cs)"
    by (simp add: automated_feature_selection_run
        [where evaluate = evaluate and f = f, OF kind cs ev] trained_on_def keep_all_if_not_frame
        call_of_top [OF nonneg])
next
  assume a: "span_range start_num_features span' = Inr ps \<and>
          (\<forall>n\<in>set ps. evaluate (keep_columns (ranked clf importance_type) X_train n) y_train
                          (keep_columns (ranked clf importance_type) X_test n) y_test = Inr (g n)) \<and>
          1 \<le> start_num_features - span' \<and>
          start_num_features + span' \<le> int (length (ranked clf importance_type))"
  then have ps: "span_range start_num_features span' = Inr ps"
    and ev: "\<forall>n\<in>set ps. evaluate (keep_columns (ranked clf importance_type) X_train n) y_train
                (keep_columns (ranked clf importance_type) X_test n) y_test = Inr (g n)"
    and lo: "1 \<le> start_num_features - span'"
    and hi: "start_num_features + span' \<le> int (length (ranked clf importance_type))"
    by simp_all
  have "ps = rev [start_num_features - span' .. start_num_features + span']"
    using ps by (simp add: span_range_eq)
  then have b: "\<forall>n\<in>set ps. 1 \<le> n \<and> n \<le> int (length (ranked clf importance_type))"
    using lo hi by auto
  then have nonneg: "\<forall>n\<in>set ps. 0 \<le> n" by auto
  show "\<forall>n\<in>set ps. 1 \<le> n \<and> n \<le> int (length (ranked clf importance_type))" by (rule b)
  show "trained_on (interpretable_precise_feature_selection evaluate clf start_num_features
                        auc_limit importance_type ci span' X_train X_test y_train y_test) =
            Some (map (\<lambda>n. (n, loc_isin X_train (map fst (take (nat n) (ranked clf importance_type))),
                              loc_isin X_test (map fst (take (nat n) (ranked clf importance_type))))) ps)"
    by (simp add: interpretable_precise_feature_selection_run
        [where evaluate = evaluate and f = g, OF kind ps ev] trained_on_def call_of_top [OF nonneg])
  show "trained_on (automated_precise_feature_selection evaluate clf start_num_features
                        auc_limit importance_type ci span' X_train X_test y_train y_test) =
            Some (map (\<lambda>n. (n, loc_isin X_train (map fst (take (nat n) (ranked clf importance_type))),
                              loc_isin X_test (map fst (take (nat n) (ranked clf importance_type))))) ps)"
    by (simp add: automated_precise_feature_selection_run
        [where evaluate = evaluate and f = g, OF kind ps ev] trained_on_def keep_start_if_not_frame
        call_of_top [OF nonneg])
next
  show "length (ranked clf importance_type) = length (clf importance_type)"
    by (rule length_ranked)
next
  assume d: "distinct (map fst (clf importance_type)) \<and>
          set (map fst (clf importance_type)) \<subseteq> set (columns df)"
  then show "length (ranked clf importance_type) \<le> length (columns df)"
    by (simp add: ranked_fits_frame)
  show "\<forall>n. set (columns (loc_isin df (map fst (take (nat n) (ranked clf importance_type))))) =
                 set (map fst (take (nat n) (ranked clf importance_type)))"
  proof
    fix n
    have "set (map fst (take (nat n) (ranked clf importance_type))) \<subseteq>
        set (map fst (ranked clf importance_type))"
      by (auto dest: in_set_takeD)
    also have "\<dots> = set (map fst (clf importance_type))"
      by (simp add: set_ranked)
    also have "\<dots> \<subseteq> set (columns df)" using d by simp
    finally show "set (columns (loc_isin df (map fst (take (nat n) (ranked clf importance_type))))) =
                 set (map fst (take (nat n) (ranked clf importance_type)))"
      by (rule columns_loc_isin)
  qed
qed

lemma example_span_range_3_1: "span_range 3 1 = Inr [4, 3, 2]"
  by (simp add: span_range_def py_range_def range_down.simps)

lemma example_span_range_4_1: "span_range 4 1 = Inr [5, 4, 3]"
  by (simp add: span_range_def py_range_def range_down.simps)

lemma example_loc_isin:
  "loc_isin example_X (map fst (take 4 (ranked example_clf kind))) = example_X"
  "loc_isin example_X (map fst (ranked example_clf kind)) = example_X"
  "loc_isin example_X (map fst (take 3 (ranked example_clf kind))) = [(0, ()), (1, ()), (3, ())]"
  "loc_isin example_X (map fst (take 2 (ranked example_clf kind))) = [(1, ()), (3, ())]"
  "loc_isin example_X (map fst (take (Suc 0) (ranked example_clf kind))) = [(1, ())]"
  by (simp_all add: example_ranked loc_isin_def example_X_def)

theorem candidates_and_their_subsets_witness:
  "trained_on (automated_feature_selection counting_trainer example_clf (1 / 4) ''gain'' 1 1
                 example_X example_X () ()) =
     Some [(3, [(0, ()), (1, ()), (3, ())], [(0, ()), (1, ()), (3, ())]),
           (2, [(1, ()), (3, ())], [(1, ()), (3, ())]),
           (1, [(1, ())], [(1, ())])] \<and>
   trained_on (interpretable_precise_feature_selection counting_trainer example_clf 3 (1 / 4)
                 ''gain'' 1 1 example_X example_X () ()) =
     Some [(4, example_X, example_X),
           (3, [(0, ()), (1, ()), (3, ())], [(0, ()), (1, ()), (3, ())]),
           (2, [(1, ()), (3, ())], [(1, ()), (3, ())])] \<and>
   length (ranked example_clf ''gain'') = 4"
  using candidates_and_their_subsets [OF gain_recognized, where clf = example_clf and steps = 1
      and cs = "[3, 2, 1]" and evaluate = counting_trainer
      and f = "\<lambda>n. real (length (keep_columns (ranked example_clf ''gain'') example_X n)) / 10"
      and g = "\<lambda>n. real (length (keep_columns (ranked example_clf ''gain'') example_X n)) / 10"
      and auc_limit = "1 / 4" and ci = 1 and start_num_features = 3
      and span' = 1 and ps = "[4, 3, 2]" and X_train = example_X and X_test = example_X
      and y_train = "()" and y_test = "()" and df = example_X]
  by (simp add: example_quartile_range_1 example_span_range_3_1 counting_trainer_def example_keep_columns example_X_nonempty
      example_loc_isin example_lengths)

text \<open>
  Claim C7 as stated fails for the precise searches, which do not clamp their range: with
  four features, \<open>start_num_features = 4\<close> and \<open>span = 1\<close> the count 5 is trained on, on
  all four columns; with \<open>start_num_features = 1\<close> and \<open>span = 1\<close> the count 0 is generated,
  and the call raises when it reaches it.
\<close>

theorem precise_search_leaves_feature_range:
  "length (ranked example_clf ''gain'') = 4 \<and> length (columns example_X) = 4 \<and>
   trained_on (interpretable_precise_feature_selection (constant_trainer (9 / 10)) example_clf 4
                 (1 / 2) ''gain'' 1 1 example_X example_X () ()) =
     Some [(5, example_X, example_X),
           (4, example_X, example_X),
           (3, [(0, ()), (1, ()), (3, ())], [(0, ()), (1, ()), (3, ())])] \<and>
   span_range 1 1 = Inr [2, 1, 0] \<and>
   automated_precise_feature_selection (constant_trainer (9 / 10)) example_clf 1
     (1 / 2) ''gain'' 1 1 example_X example_X () () = Inl TrainerError"
proof -
  have ev5: "\<forall>n\<in>set [5, 4, 3].
      constant_trainer (9 / 10) (keep_columns (ranked example_clf ''gain'') example_X n) ()
        (keep_columns (ranked example_clf ''gain'') example_X n) () = Inr (9 / 10)"
    by (simp add: constant_trainer_def example_keep_columns example_X_nonempty)
  have ps: "span_range 1 1 = Inr ([2, 1] @ 0 # [])"
    by (simp add: example_span_range_1_1)
  have ev2: "\<forall>m\<in>set [2, 1].
      constant_trainer (9 / 10) (keep_columns (ranked example_clf ''gain'') example_X m) ()
        (keep_columns (ranked example_clf ''gain'') example_X m) () = Inr (9 / 10)"
    by (simp add: constant_trainer_def example_keep_columns example_X_nonempty)
  have fails: "constant_trainer (9 / 10) (keep_columns (ranked example_clf ''gain'') example_X 0) ()
        (keep_columns (ranked example_clf ''gain'') example_X 0) () = Inl TrainerError"
    by (simp add: constant_trainer_def example_keep_columns)
  note raised = automated_precise_feature_selection_raises
    [where evaluate = "constant_trainer (9 / 10)" and f = "\<lambda>n. 9 / 10",
      OF gain_recognized ps ev2 fails]
  show ?thesis
    by (simp add: interpretable_precise_feature_selection_run
        [where evaluate = "constant_trainer (9 / 10)" and f = "\<lambda>n. 9 / 10", OF gain_recognized
          example_span_range_4_1 ev5]
        raised trained_on_def call_of_def example_keep_columns example_lengths
        example_span_range_1_1)
qed

section \<open>An unrecognized kind of importance\<close>

text \<open>
  Claim C8. For a kind of importance outside \<open>gain\<close>, \<open>weight\<close>, \<open>cover\<close>, \<open>total_gain\<close>,
  \<open>total_cover\<close> each of the four functions fails with \<open>InvalidImportanceType\<close>: the
  provider's error is the first thing that happens and nothing catches it. For a
  recognized kind the ranking is computed from the provider's mapping alone: the same
  entries, in descending order of score. The ranking is a function on values; nothing
  else is read or changed by it. The provider \<open>get_score\<close> is the one modelled from the
  specification.
\<close>

theorem unrecognized_kind_fails:
  "(importance_type \<notin> set importance_types \<longrightarrow>
      interpretable_feature_selection evaluate clf auc_limit importance_type ci steps
        X_train X_test y_train y_test = Inl InvalidImportanceType \<and>
      interpretable_precise_feature_selection evaluate clf start_num_features auc_limit
        importance_type ci span' X_train X_test y_train y_test = Inl InvalidImportanceType \<and>
      automated_feature_selection evaluate clf auc_limit importance_type ci steps
        X_train X_test y_train y_test = Inl InvalidImportanceType \<and>
      automated_precise_feature_selection evaluate clf start_num_features auc_limit
        importance_type ci span' X_train X_test y_train y_test = Inl InvalidImportanceType) \<and>
   (importance_type \<in> set importance_types \<longrightarrow>
      get_score clf importance_type = Inr (clf importance_type) \<and>
      set (ranked clf importance_type) = set (clf importance_type) \<and>
      length (ranked clf importance_type) = length (clf importance_type) \<and>
      sorted_wrt (\<lambda>p q. snd q \<le> snd p) (ranked clf importance_type))"
  by (simp add: interpretable_feature_selection_def interpretable_precise_feature_selection_def
      automated_feature_selection_def automated_precise_feature_selection_def get_score_def
      set_ranked length_ranked ranked_descending)

theorem unrecognized_kind_fails_witness:
  "interpretable_feature_selection counting_trainer example_clf (1 / 2) ''shap'' 1 5
     example_X example_X () () = Inl InvalidImportanceType \<and>
   interpretable_precise_feature_selection counting_trainer example_clf 2 (1 / 2) ''shap'' 1 5
     example_X example_X () () = Inl InvalidImportanceType \<and>
   automated_feature_selection counting_trainer example_clf (1 / 2) ''shap'' 1 5
     example_X example_X () () = Inl InvalidImportanceType \<and>
   automated_precise_feature_selection counting_trainer example_clf 2 (1 / 2) ''shap'' 1 5
     example_X example_X () () = Inl InvalidImportanceType \<and>
   get_score example_clf ''total_gain'' = Inr (example_clf ''total_gain'') \<and>
   set (ranked example_clf ''total_gain'') = set (example_clf ''total_gain'')"
  using unrecognized_kind_fails [where importance_type = "''shap''" and clf = example_clf
      and evaluate = counting_trainer and auc_limit = "1 / 2" and ci = 1 and steps = 5
      and span' = 5 and start_num_features = 2 and X_train = example_X and X_test = example_X
      and y_train = "()" and y_test = "()"]
    unrecognized_kind_fails [where importance_type = "''total_gain''" and clf = example_clf
      and evaluate = counting_trainer and auc_limit = "1 / 2" and ci = 1 and steps = 5
      and span' = 5 and start_num_features = 2 and X_train = example_X and X_test = example_X
      and y_train = "()" and y_test = "()"]
  by (simp add: importance_types_def)

end
